theory Spec2Isabelle
  imports Complex_Main "HOL-Library.Multiset"
begin

text \<open>
  A shallow embedding of the statistical core of the multi-judge chat evaluation: the outlier
  detector, the orchestrator that dispatches to the providers and consolidates their scores,
  the confidence calculator and the consistency validator, each function translated from its
  TypeScript source, followed by the properties proved about them.
\<close>

section \<open>JavaScript numbers\<close>

text \<open>
  The evaluation engine computes on JavaScript \<open>number\<close>s. A \<open>number\<close> is modelled as an
  exact real or one of the three special values; arithmetic on finite values is exact
  (rounding and overflow of the binary representation are not modelled, and negative zero
  is not distinguished from zero). The special values follow the language: \<open>NaN\<close> is
  absorbing, \<open>Infinity - Infinity\<close> and \<open>0 * Infinity\<close> are \<open>NaN\<close>, and every comparison
  with \<open>NaN\<close> is false. The order relations \<open>\<le>\<close> and \<open><\<close> on \<open>jsnum\<close> are the operators
  \<open><=\<close> and \<open><\<close> of the language, so \<open>\<le>\<close> is not reflexive at \<open>NaN\<close>.
\<close>

datatype jsnum = Num real | PInf | NInf | NaN

instantiation jsnum :: "{plus, minus, times, inverse, ord}"
begin

fun plus_jsnum :: "jsnum \<Rightarrow> jsnum \<Rightarrow> jsnum" where
  "plus_jsnum NaN _ = NaN"
| "plus_jsnum _ NaN = NaN"
| "plus_jsnum PInf NInf = NaN"
| "plus_jsnum NInf PInf = NaN"
| "plus_jsnum PInf _ = PInf"
| "plus_jsnum _ PInf = PInf"
| "plus_jsnum NInf _ = NInf"
| "plus_jsnum _ NInf = NInf"
| "plus_jsnum (Num a) (Num b) = Num (a + b)"

fun minus_jsnum :: "jsnum \<Rightarrow> jsnum \<Rightarrow> jsnum" where
  "minus_jsnum NaN _ = NaN"
| "minus_jsnum _ NaN = NaN"
| "minus_jsnum PInf PInf = NaN"
| "minus_jsnum NInf NInf = NaN"
| "minus_jsnum PInf _ = PInf"
| "minus_jsnum _ NInf = PInf"
| "minus_jsnum NInf _ = NInf"
| "minus_jsnum _ PInf = NInf"
| "minus_jsnum (Num a) (Num b) = Num (a - b)"

fun times_jsnum :: "jsnum \<Rightarrow> jsnum \<Rightarrow> jsnum" where
  "times_jsnum NaN _ = NaN"
| "times_jsnum _ NaN = NaN"
| "times_jsnum (Num a) (Num b) = Num (a * b)"
| "times_jsnum (Num a) PInf = (if a = 0 then NaN else if 0 < a then PInf else NInf)"
| "times_jsnum (Num a) NInf = (if a = 0 then NaN else if 0 < a then NInf else PInf)"
| "times_jsnum PInf (Num b) = (if b = 0 then NaN else if 0 < b then PInf else NInf)"
| "times_jsnum NInf (Num b) = (if b = 0 then NaN else if 0 < b then NInf else PInf)"
| "times_jsnum PInf PInf = PInf"
| "times_jsnum NInf NInf = PInf"
| "times_jsnum PInf NInf = NInf"
| "times_jsnum NInf PInf = NInf"

fun divide_jsnum :: "jsnum \<Rightarrow> jsnum \<Rightarrow> jsnum" where
  "divide_jsnum NaN _ = NaN"
| "divide_jsnum _ NaN = NaN"
| "divide_jsnum (Num a) (Num b) =
     (if b = 0 then (if a = 0 then NaN else if 0 < a then PInf else NInf) else Num (a / b))"
| "divide_jsnum (Num a) _ = Num 0"
| "divide_jsnum PInf (Num b) = (if 0 \<le> b then PInf else NInf)"
| "divide_jsnum NInf (Num b) = (if 0 \<le> b then NInf else PInf)"
| "divide_jsnum _ _ = NaN"

definition inverse_jsnum :: "jsnum \<Rightarrow> jsnum" where
  "inverse_jsnum (x :: jsnum) = divide (Num 1) x"

fun less_jsnum :: "jsnum \<Rightarrow> jsnum \<Rightarrow> bool" where
  "less_jsnum NaN _ = False"
| "less_jsnum _ NaN = False"
| "less_jsnum (Num a) (Num b) = (a < b)"
| "less_jsnum _ NInf = False"
| "less_jsnum PInf _ = False"
| "less_jsnum NInf _ = True"
| "less_jsnum _ PInf = True"

fun less_eq_jsnum :: "jsnum \<Rightarrow> jsnum \<Rightarrow> bool" where
  "less_eq_jsnum NaN _ = False"
| "less_eq_jsnum _ NaN = False"
| "less_eq_jsnum (Num a) (Num b) = (a \<le> b)"
| "less_eq_jsnum NInf _ = True"
| "less_eq_jsnum _ PInf = True"
| "less_eq_jsnum _ NInf = False"
| "less_eq_jsnum PInf _ = False"

instance ..

end

text \<open>\<open>isNaN(x)\<close>, and the truth value of a number in \<open>a || b\<close> and \<open>if (a)\<close>.\<close>

definition isNaN :: "jsnum \<Rightarrow> bool" where
  "isNaN x = (x = NaN)"

definition truthy :: "jsnum \<Rightarrow> bool" where
  "truthy x = (x \<noteq> NaN \<and> x \<noteq> Num 0)"

text \<open>\<open>Math.max(a, b)\<close>, \<open>Math.min(a, b)\<close> and their spread forms over an array.\<close>

definition Math_max :: "jsnum \<Rightarrow> jsnum \<Rightarrow> jsnum" where
  "Math_max a b = (if a = NaN \<or> b = NaN then NaN else if a \<le> b then b else a)"

definition Math_min :: "jsnum \<Rightarrow> jsnum \<Rightarrow> jsnum" where
  "Math_min a b = (if a = NaN \<or> b = NaN then NaN else if a \<le> b then a else b)"

definition Math_max_of :: "jsnum list \<Rightarrow> jsnum" where
  "Math_max_of xs = foldl Math_max NInf xs"

definition Math_min_of :: "jsnum list \<Rightarrow> jsnum" where
  "Math_min_of xs = foldl Math_min PInf xs"

text \<open>\<open>Math.sqrt\<close>, \<open>Math.log\<close> and \<open>Math.pow(x, 2)\<close>.\<close>

fun Math_sqrt :: "jsnum \<Rightarrow> jsnum" where
  "Math_sqrt (Num a) = (if a < 0 then NaN else Num (sqrt a))"
| "Math_sqrt PInf = PInf"
| "Math_sqrt NInf = NaN"
| "Math_sqrt NaN = NaN"

fun Math_log :: "jsnum \<Rightarrow> jsnum" where
  "Math_log (Num a) = (if a < 0 then NaN else if a = 0 then NInf else Num (ln a))"
| "Math_log PInf = PInf"
| "Math_log NInf = NaN"
| "Math_log NaN = NaN"

fun Math_pow2 :: "jsnum \<Rightarrow> jsnum" where
  "Math_pow2 (Num a) = Num (a ^ 2)"
| "Math_pow2 PInf = PInf"
| "Math_pow2 NInf = PInf"
| "Math_pow2 NaN = NaN"

text \<open>
  \<open>parseFloat(x.toFixed(d))\<close>: the nearest multiple of \<open>10^-d\<close>, a tie going away from zero;
  values of magnitude \<open>10^21\<close> and more and the special values are printed in full and read
  back unchanged.
\<close>

definition round_dec :: "nat \<Rightarrow> real \<Rightarrow> real" where
  "round_dec d x = (if 10 ^ 21 \<le> \<bar>x\<bar> then x
                    else sgn x * real_of_int \<lfloor>\<bar>x\<bar> * 10 ^ d + 1 / 2\<rfloor> / 10 ^ d)"

fun toFixed :: "nat \<Rightarrow> jsnum \<Rightarrow> jsnum" where
  "toFixed d (Num a) = Num (round_dec d a)"
| "toFixed d x = x"

text \<open>
  An array read \<open>xs[i]\<close> used as a number: an index outside the array yields \<open>undefined\<close>,
  which arithmetic turns into \<open>NaN\<close>.
\<close>

definition js_index :: "jsnum list \<Rightarrow> int \<Rightarrow> jsnum" where
  "js_index xs i = (if 0 \<le> i \<and> i < int (length xs) then xs ! nat i else NaN)"

text \<open>
  \<open>xs.sort(cmp)\<close>: a stable sort driven by the comparator, an element staying in front of
  another unless the comparator returns a positive number (a \<open>NaN\<close> result counts as zero).
  With the comparator \<open>(a, b) => a - b\<close> on values free of \<open>NaN\<close> this is the ascending
  order; the language leaves the result open when the comparator is inconsistent.
\<close>

fun insort_cmp :: "(jsnum \<Rightarrow> jsnum \<Rightarrow> jsnum) \<Rightarrow> jsnum \<Rightarrow> jsnum list \<Rightarrow> jsnum list" where
  "insort_cmp cmp x [] = [x]"
| "insort_cmp cmp x (y # ys) =
     (if Num 0 < cmp x y then y # insort_cmp cmp x ys else x # y # ys)"

definition Array_sort :: "(jsnum \<Rightarrow> jsnum \<Rightarrow> jsnum) \<Rightarrow> jsnum list \<Rightarrow> jsnum list" where
  "Array_sort cmp xs = foldr (insort_cmp cmp) xs []"

definition by_difference :: "jsnum \<Rightarrow> jsnum \<Rightarrow> jsnum" where
  "by_difference a b = a - b"

definition reduce_sum :: "jsnum list \<Rightarrow> jsnum" where
  "reduce_sum xs = foldl (\<lambda>sum val. sum + val) (Num 0) xs"

section \<open>OutlierDetector (lib/domain/validators/outlier-detector.ts)\<close>

text \<open>
  Of the configuration the detector reads the multiplier and the minimum sample size; the
  name of the method is never read.
\<close>

record outlier_config =
  multiplier :: jsnum
  min_samples :: jsnum

record outlier_statistics =
  q1 :: jsnum
  q3 :: jsnum
  iqr :: jsnum
  lowerBound :: jsnum
  upperBound :: jsnum
  outlierCount_stat :: nat
  outlierPercentage :: jsnum

record outlier_result =
  outliers :: "jsnum list"
  outlierIndices :: "nat list"
  statistics :: outlier_statistics
  filteredValues :: "jsnum list"

definition getEmptyResult :: "jsnum list \<Rightarrow> outlier_result" where
  "getEmptyResult values =
     \<lparr>outliers = [], outlierIndices = [],
      statistics = \<lparr>q1 = Num 0, q3 = Num 0, iqr = Num 0, lowerBound = Num 0,
                    upperBound = Num 0, outlierCount_stat = 0, outlierPercentage = Num 0\<rparr>,
      filteredValues = values\<rparr>"

definition calculateQuartile :: "jsnum list \<Rightarrow> real \<Rightarrow> jsnum" where
  "calculateQuartile sortedValues percentile =
     (let n = length sortedValues;
          position = (real n - 1) * percentile;
          lowerIndex = \<lfloor>position\<rfloor>;
          upperIndex = \<lceil>position\<rceil>
      in if lowerIndex = upperIndex then js_index sortedValues lowerIndex
         else let fraction = position - real_of_int lowerIndex
              in js_index sortedValues lowerIndex * Num (1 - fraction)
                 + js_index sortedValues upperIndex * Num fraction)"

text \<open>
  The body of the \<open>forEach\<close> over the input: the value and its index are appended to the
  outlier arrays, or the value to the filtered array.
\<close>

definition classify_step ::
  "jsnum \<Rightarrow> jsnum \<Rightarrow> jsnum list \<times> nat list \<times> jsnum list \<Rightarrow> nat \<times> jsnum
    \<Rightarrow> jsnum list \<times> nat list \<times> jsnum list" where
  "classify_step lo hi acc iv =
     (case acc of (outs, idxs, filt) \<Rightarrow>
      case iv of (index, val) \<Rightarrow>
        if val < lo \<or> hi < val then (outs @ [val], idxs @ [index], filt)
        else (outs, idxs, filt @ [val]))"

text \<open>
  The detection proper, from the quartiles on: \<open>values\<close> is the caller's array and
  \<open>sortedValues\<close> the sorted copy.
\<close>

definition detect_sorted :: "outlier_config \<Rightarrow> jsnum list \<Rightarrow> jsnum list \<Rightarrow> outlier_result" where
  "detect_sorted config values sortedValues =
     (let q1v = calculateQuartile sortedValues 0.25;
          q3v = calculateQuartile sortedValues 0.75;
          iqrv = q3v - q1v;
          lo = q1v - multiplier config * iqrv;
          hi = q3v + multiplier config * iqrv;
          (outs, idxs, filt) = foldl (classify_step lo hi) ([], [], []) (List.enumerate 0 values)
      in \<lparr>outliers = outs, outlierIndices = idxs,
          statistics = \<lparr>q1 = q1v, q3 = q3v, iqr = iqrv, lowerBound = lo, upperBound = hi,
                        outlierCount_stat = length outs,
                        outlierPercentage =
                          Num (real (length outs)) / Num (real (length values)) * Num 100\<rparr>,
          filteredValues = filt\<rparr>)"

text \<open>
  \<open>detectOutliers\<close> on a store of arrays: \<open>values_ref\<close> is the caller's array. The copy
  \<open>[...values]\<close> is a new array at the end of the store, and \<open>sort\<close> rewrites that array in
  place; the arrays of the result are returned by value.
\<close>

type_synonym array_store = "jsnum list list"

definition detectOutliers_store ::
  "outlier_config \<Rightarrow> nat \<Rightarrow> array_store \<Rightarrow> outlier_result \<times> array_store" where
  "detectOutliers_store config values_ref store =
     (if Num (real (length (store ! values_ref))) < min_samples config
      then (getEmptyResult (store ! values_ref), store)
      else let sorted_ref = length store;
               store1 = store @ [store ! values_ref];
               store2 = store1[sorted_ref := Array_sort by_difference (store1 ! sorted_ref)]
           in (detect_sorted config (store2 ! values_ref) (store2 ! sorted_ref), store2))"

definition detectOutliers :: "outlier_config \<Rightarrow> jsnum list \<Rightarrow> outlier_result" where
  "detectOutliers config values = fst (detectOutliers_store config 0 [values])"

section \<open>Provider results and thresholds (lib/types/evaluation)\<close>

text \<open>
  \<open>scores\<close> is a \<open>Record<string, number>\<close>: an association list in property order, read
  with \<open>map_of\<close>; a key occurs at most once. The rubric's Korean property names are written
  in Latin letters: \<open>eommu_neungryeok\<close>, \<open>munjangryeok\<close>, \<open>gibon_taedo\<close> for the three
  categories and \<open>chongjeom\<close> for the total. \<open>responseTime\<close> is a difference of two clock
  readings in milliseconds. Of the thresholds, the records keep the fields that the functions
  below read.
\<close>

record ProviderResult =
  name :: string
  model :: string
  scores :: "(string \<times> jsnum) list"
  responseTime :: nat
  tokens :: jsnum
  cost :: jsnum
  success :: bool
  error :: "string option"

record level_config =
  target :: jsnum
  minimum :: jsnum

record confidence_factors =
  consistency_weight :: jsnum
  outlier_weight :: jsnum
  sample_size_weight :: jsnum

record confidence_config = level_config +
  factors :: confidence_factors

record ThresholdConfig =
  consistency_thresholds :: level_config
  confidence_thresholds :: confidence_config
  outlier_detection :: outlier_config

datatype reliability = High | Medium | Low

text \<open>\<open>typeof value === 'number' && !isNaN(value)\<close> on a property read.\<close>

definition is_number :: "jsnum option \<Rightarrow> bool" where
  "is_number value = (case value of None \<Rightarrow> False | Some v \<Rightarrow> \<not> isNaN v)"

text \<open>\<open>a || b\<close> on property reads, and \<open>a || d\<close> with a numeric default.\<close>

definition or_else :: "jsnum option \<Rightarrow> jsnum option \<Rightarrow> jsnum option" where
  "or_else a b = (case a of None \<Rightarrow> b | Some v \<Rightarrow> if truthy v then Some v else b)"

definition or_default :: "jsnum option \<Rightarrow> jsnum \<Rightarrow> jsnum" where
  "or_default a d = (case a of None \<Rightarrow> d | Some v \<Rightarrow> if truthy v then v else d)"

text \<open>
  The keys of all results in the order a \<open>Set\<close> collects them: each key once, at its first
  occurrence.
\<close>

definition add_key :: "string list \<Rightarrow> string \<Rightarrow> string list" where
  "add_key keys key = (if key \<in> set keys then keys else keys @ [key])"

definition scoreKeys :: "ProviderResult list \<Rightarrow> string list" where
  "scoreKeys results = foldl (\<lambda>keys result. foldl add_key keys (map fst (scores result))) [] results"

section \<open>EvaluationOrchestrator (lib/integration/evaluation-orchestrator.ts)\<close>

text \<open>
  One round of the \<open>scoreKeys.forEach\<close> of \<open>consolidateScores\<close>, on the sorted numeric values
  of one key: the entry written to \<open>consolidated[key]\<close>, or \<open>None\<close> when nothing is written.
  The three indices are below the length of \<open>values\<close>.
\<close>

definition consolidateValues :: "jsnum list \<Rightarrow> jsnum option" where
  "consolidateValues values =
     (if length values > 0 then
        if length values = 1 then Some (values ! 0)
        else if length values = 2 then Some ((values ! 0 + values ! 1) / Num 2)
        else
          let q1Index = nat \<lfloor>real (length values) * 0.25\<rfloor>;
              q3Index = nat \<lfloor>real (length values) * 0.75\<rfloor>;
              q1 = values ! q1Index;
              q3 = values ! q3Index;
              iqr = q3 - q1;
              lowerBound = q1 - Num 1.5 * iqr;
              upperBound = q3 + Num 1.5 * iqr;
              filteredValues = filter (\<lambda>v. v \<ge> lowerBound \<and> v \<le> upperBound) values
          in if length filteredValues > 0
             then Some (reduce_sum filteredValues / Num (real (length filteredValues)))
             else let medianIndex = nat \<lfloor>real (length values) / 2\<rfloor>
                  in Some (values ! medianIndex)
      else None)"

definition key_values :: "ProviderResult list \<Rightarrow> string \<Rightarrow> jsnum list" where
  "key_values results key =
     map the (filter is_number (map (\<lambda>result. map_of (scores result) key) results))"

text \<open>
  \<open>consolidateScores\<close> as the lookup in the object it returns. A key that no result carries
  has no values and no entry, so the lookup need not consult the key set.
\<close>

definition consolidateScores :: "ProviderResult list \<Rightarrow> string \<Rightarrow> jsnum option" where
  "consolidateScores results key =
     consolidateValues (Array_sort by_difference (key_values results key))"

text \<open>
  \<open>validateConsistency\<close> of the orchestrator returns the consistency and a \<open>details\<close> object
  of formatted strings that nothing reads; the model returns the consistency.
\<close>

definition variance_step :: "ProviderResult list \<Rightarrow> jsnum \<times> nat \<Rightarrow> string \<Rightarrow> jsnum \<times> nat" where
  "variance_step results acc key =
     (case acc of (totalVariance, validComparisons) \<Rightarrow>
      let values = key_values results key
      in if length values \<ge> 2 then
           let mean = reduce_sum values / Num (real (length values));
               variance = foldl (\<lambda>sum val. sum + Math_pow2 (val - mean)) (Num 0) values
                            / Num (real (length values))
           in (totalVariance + variance, validComparisons + 1)
         else (totalVariance, validComparisons))"

definition orchestrator_validateConsistency :: "ProviderResult list \<Rightarrow> jsnum" where
  "orchestrator_validateConsistency results =
     (if length results < 2 then Num 1.0
      else
        let (totalVariance, validComparisons) =
              foldl (variance_step results) (Num 0, 0) (scoreKeys results);
            averageVariance =
              (if validComparisons > 0 then totalVariance / Num (real validComparisons)
               else Num 0)
        in Math_max (Num 0) (Num 1 - averageVariance / Num 2))"

text \<open>
  \<open>detectOutliers\<close> of the orchestrator: the positions, in the sorted array of total scores,
  of the scores outside the bounds.
\<close>

definition orchestrator_detectOutliers :: "ThresholdConfig \<Rightarrow> ProviderResult list \<Rightarrow> nat list" where
  "orchestrator_detectOutliers thresholds results =
     (if length results < 3 then []
      else
        let totalScores = Array_sort by_difference (map the (filter is_number
              (map (\<lambda>result. or_else (map_of (scores result) ''total_score'')
                                       (map_of (scores result) ''chongjeom'')) results)))
        in if length totalScores < 3 then []
           else
             let q1Index = nat \<lfloor>real (length totalScores) * 0.25\<rfloor>;
                 q3Index = nat \<lfloor>real (length totalScores) * 0.75\<rfloor>;
                 q1 = totalScores ! q1Index;
                 q3 = totalScores ! q3Index;
                 iqr = q3 - q1;
                 multiplier = multiplier (outlier_detection thresholds);
                 lowerBound = q1 - multiplier * iqr;
                 upperBound = q3 + multiplier * iqr
             in map fst (filter (\<lambda>(index, score). score < lowerBound \<or> score > upperBound)
                           (List.enumerate 0 totalScores)))"

text \<open>
  \<open>calculateConfidence\<close> of the orchestrator; its local constant \<open>sampleSizeRatio\<close>, the
  sample-size component before weighting, is a function of the number of results.
\<close>

definition sampleSizeRatio :: "jsnum \<Rightarrow> jsnum" where
  "sampleSizeRatio totalResults = Math_min (Num 1) (totalResults / Num 3)"

definition orchestrator_calculateConfidence ::
  "ThresholdConfig \<Rightarrow> jsnum \<Rightarrow> jsnum \<Rightarrow> jsnum \<Rightarrow> jsnum" where
  "orchestrator_calculateConfidence thresholds consistency outlierCount totalResults =
     (let factors = factors (confidence_thresholds thresholds);
          consistencyContribution = consistency * consistency_weight factors;
          outlierRatio = outlierCount / totalResults;
          outlierContribution = Math_max (Num 0) (Num 1 - outlierRatio) * outlier_weight factors;
          sampleSizeContribution = sampleSizeRatio totalResults * sample_size_weight factors;
          confidence = consistencyContribution + outlierContribution + sampleSizeContribution
      in Math_min (Num 1) (Math_max (Num 0) confidence))"

text \<open>
  \<open>determineReliability\<close> has the same text in the orchestrator and in the confidence
  calculator.
\<close>

definition determineReliability :: "jsnum \<Rightarrow> jsnum \<Rightarrow> reliability" where
  "determineReliability confidence consistency =
     (if confidence \<ge> Num 0.8 \<and> consistency \<ge> Num 0.8 then High
      else if confidence \<ge> Num 0.6 \<and> consistency \<ge> Num 0.6 then Medium
      else Low)"

text \<open>
  What the orchestrator reads of a provider's \<open>EvaluationResult\<close>: the \<open>subtotal\<close> of each
  category (\<open>None\<close> when the category or its subtotal is missing), the total score, the token
  count and the cost.
\<close>

record eval_scores =
  eommu_neungryeok_subtotal :: "jsnum option"
  munjangryeok_subtotal :: "jsnum option"
  gibon_taedo_subtotal :: "jsnum option"
  total_score :: "jsnum option"

record EvaluationResult =
  result_scores :: "eval_scores option"
  result_tokens :: "jsnum option"
  result_cost :: "jsnum option"

definition score_entry :: "string \<Rightarrow> jsnum option \<Rightarrow> (string \<times> jsnum) list" where
  "score_entry key value =
     (case value of None \<Rightarrow> [] | Some v \<Rightarrow> if truthy v then [(key, v)] else [])"

definition extractScores :: "EvaluationResult \<Rightarrow> (string \<times> jsnum) list" where
  "extractScores result =
     (case result_scores result of
        None \<Rightarrow> []
      | Some s \<Rightarrow>
          score_entry ''eommu_neungryeok'' (eommu_neungryeok_subtotal s)
          @ score_entry ''munjangryeok'' (munjangryeok_subtotal s)
          @ score_entry ''gibon_taedo'' (gibon_taedo_subtotal s)
          @ score_entry ''total_score'' (total_score s))"

text \<open>
  A provider as the orchestrator meets it: its name, the model of its configuration, how
  \<open>evaluateWithRetry(request)\<close> settles (a result, a thrown \<open>Error\<close> with its message, or any
  other thrown value) and the milliseconds the call took.
\<close>

datatype provider_outcome = Resolved EvaluationResult | Rejected_Error string | Rejected_other

record provider =
  getName :: string
  getModel :: string
  outcome :: provider_outcome
  elapsed :: nat

text \<open>
  The function mapped over the providers by \<open>executeParallelEvaluations\<close>: it catches every
  failure of the call, so each of its promises is fulfilled and \<open>Promise.allSettled\<close> hands
  back one result per provider, in the order of the providers. The message given for a thrown
  value that is no \<open>Error\<close> is written here as \<open>unknown error\<close>.
\<close>

definition evaluate_provider :: "provider \<Rightarrow> ProviderResult" where
  "evaluate_provider p =
     (case outcome p of
        Resolved result \<Rightarrow>
          \<lparr>name = getName p, model = getModel p, scores = extractScores result,
           responseTime = elapsed p,
           tokens = or_default (result_tokens result) (Num 0),
           cost = or_default (result_cost result) (Num 0),
           success = True, error = None\<rparr>
      | Rejected_Error message \<Rightarrow>
          \<lparr>name = getName p, model = getModel p, scores = [], responseTime = elapsed p,
           tokens = Num 0, cost = Num 0, success = False, error = Some message\<rparr>
      | Rejected_other \<Rightarrow>
          \<lparr>name = getName p, model = getModel p, scores = [], responseTime = elapsed p,
           tokens = Num 0, cost = Num 0, success = False, error = Some ''unknown error''\<rparr>)"

datatype orchestrator_error =
  No_provider_available | All_providers_failed | No_successful_result

definition executeParallelEvaluations :: "provider list \<Rightarrow> orchestrator_error + ProviderResult list" where
  "executeParallelEvaluations providers =
     (let results = map evaluate_provider providers;
          successfulResults = filter success results
      in if length successfulResults = 0 then Inl All_providers_failed else Inr results)"

record consolidated_scores =
  eommu_neungryeok :: jsnum
  munjangryeok :: jsnum
  gibon_taedo :: jsnum
  chongjeom :: jsnum

record validation_summary =
  validation_consistency :: jsnum
  validation_confidence :: jsnum
  validation_reliability :: reliability
  validation_outliers :: "nat list"

record Evidence =
  positive :: "string list"
  negative :: "string list"
  quotes :: "string list"

record result_metadata =
  criteriaVersion :: string
  processingTime :: nat
  timestamp :: string

record ConsolidatedResult =
  final_scores :: consolidated_scores
  validation :: validation_summary
  provider_results :: "ProviderResult list"
  evidence :: Evidence
  metadata :: result_metadata

text \<open>
  Of the request, consolidation reads the version of the criteria; the two clock readings
  of \<open>consolidateResults\<close> are inputs of the model.
\<close>

record request_context =
  criteria_version :: string
  clock_ms :: nat
  clock_iso :: string

definition consolidateEvidence :: "ProviderResult list \<Rightarrow> Evidence" where
  "consolidateEvidence results = \<lparr>positive = [], negative = [], quotes = []\<rparr>"

definition consolidateResults ::
  "ThresholdConfig \<Rightarrow> request_context \<Rightarrow> ProviderResult list
     \<Rightarrow> orchestrator_error + ConsolidatedResult" where
  "consolidateResults thresholds request providerResults =
     (let successfulResults = filter success providerResults
      in if length successfulResults = 0 then Inl No_successful_result
         else
           let consolidatedScores = consolidateScores successfulResults;
               consistency = orchestrator_validateConsistency successfulResults;
               outliers = orchestrator_detectOutliers thresholds successfulResults;
               confidence = orchestrator_calculateConfidence thresholds consistency
                              (Num (real (length outliers)))
                              (Num (real (length successfulResults)))
           in Inr \<lparr>final_scores =
                     \<lparr>eommu_neungryeok = or_default (consolidatedScores ''eommu_neungryeok'') (Num 3.0),
                      munjangryeok = or_default (consolidatedScores ''munjangryeok'') (Num 3.0),
                      gibon_taedo = or_default (consolidatedScores ''gibon_taedo'') (Num 3.0),
                      chongjeom = or_default (consolidatedScores ''total_score'') (Num 3.0)\<rparr>,
                   validation =
                     \<lparr>validation_consistency = consistency,
                      validation_confidence = confidence,
                      validation_reliability = determineReliability confidence consistency,
                      validation_outliers = outliers\<rparr>,
                   provider_results = providerResults,
                   evidence = consolidateEvidence successfulResults,
                   metadata = \<lparr>criteriaVersion = criteria_version request,
                               processingTime = clock_ms request,
                               timestamp = clock_iso request\<rparr>\<rparr>)"

definition evaluateChat ::
  "ThresholdConfig \<Rightarrow> request_context \<Rightarrow> provider list \<Rightarrow> orchestrator_error + ConsolidatedResult" where
  "evaluateChat thresholds request providers =
     (if length providers = 0 then Inl No_provider_available
      else case executeParallelEvaluations providers of
             Inl e \<Rightarrow> Inl e
           | Inr evaluationResults \<Rightarrow> consolidateResults thresholds request evaluationResults)"

section \<open>ConfidenceCalculator (lib/domain/validators/confidence-calculator.ts)\<close>

record additional_factors =
  factor_responseTime :: "jsnum option"
  tokenUsage :: "jsnum option"
  errorRate :: "jsnum option"
  historicalPerformance :: "jsnum option"

datatype confidence_assessment = Target_reached | Minimum_reached | Below_minimum

datatype confidence_recommendation =
  Review_providers | Clarify_criteria | Many_outliers | Enable_more_providers | Keep_settings

record confidence_components =
  consistency_component :: jsnum
  outlier_component :: jsnum
  sampleSize_component :: jsnum
  additional_component :: "jsnum option"

record confidence_report =
  confidence_returned :: jsnum
  reliability_returned :: reliability
  components :: confidence_components
  assessment :: confidence_assessment
  confidence_recommendations :: "confidence_recommendation list"

definition calculateSampleSizeContribution :: "jsnum \<Rightarrow> jsnum" where
  "calculateSampleSizeContribution totalResults =
     (if totalResults \<le> Num 0 then Num 0
      else let optimal = Num 5;
               ratio = Math_min (Num 1) (totalResults / optimal)
           in Math_log (Num 1 + ratio) / Math_log (Num 2))"

definition scoreResponseTime :: "jsnum \<Rightarrow> jsnum" where
  "scoreResponseTime rt =
     (if rt < Num 1 then Num 0.5
      else if rt \<le> Num 10 then Num 1.0
      else if rt \<le> Num 30 then Num 0.8
      else if rt \<le> Num 60 then Num 0.6
      else Num 0.3)"

definition scoreTokenUsage :: "jsnum \<Rightarrow> jsnum" where
  "scoreTokenUsage tu =
     (if tu < Num 100 then Num 0.3
      else if tu \<le> Num 500 then Num 0.7
      else if tu \<le> Num 2000 then Num 1.0
      else if tu \<le> Num 4000 then Num 0.8
      else Num 0.5)"

text \<open>One \<open>if (factors.x !== undefined)\<close> block: the score is added and the count raised.\<close>

definition add_factor :: "jsnum option \<Rightarrow> (jsnum \<Rightarrow> jsnum) \<Rightarrow> jsnum \<times> nat \<Rightarrow> jsnum \<times> nat" where
  "add_factor value score acc =
     (case value of
        None \<Rightarrow> acc
      | Some v \<Rightarrow> (case acc of (additionalScore, factorCount) \<Rightarrow>
                    (additionalScore + score v, factorCount + 1)))"

definition calculateAdditionalFactors :: "additional_factors option \<Rightarrow> jsnum" where
  "calculateAdditionalFactors additionalFactors =
     (case additionalFactors of
        None \<Rightarrow> Num 0
      | Some fs \<Rightarrow>
          let acc1 = add_factor (factor_responseTime fs) scoreResponseTime (Num 0, 0);
              acc2 = add_factor (tokenUsage fs) scoreTokenUsage acc1;
              acc3 = add_factor (errorRate fs) (\<lambda>e. Math_max (Num 0) (Num 1 - e)) acc2;
              (additionalScore, factorCount) =
                add_factor (historicalPerformance fs)
                  (\<lambda>h. Math_min (Num 1) (Math_max (Num 0) h)) acc3
          in if factorCount > 0 then (additionalScore / Num (real factorCount)) * Num 0.1
             else Num 0)"

text \<open>
  \<open>generateAssessment\<close> also receives the consistency and the outlier ratio and reads
  neither; the texts of assessments and recommendations are named by constructors.
\<close>

definition generateAssessment :: "confidence_config \<Rightarrow> jsnum \<Rightarrow> confidence_assessment" where
  "generateAssessment config confidence =
     (if confidence \<ge> target config then Target_reached
      else if confidence \<ge> minimum config then Minimum_reached
      else Below_minimum)"

definition generateRecommendations ::
  "confidence_config \<Rightarrow> jsnum \<Rightarrow> jsnum \<Rightarrow> jsnum \<Rightarrow> jsnum \<Rightarrow> confidence_recommendation list" where
  "generateRecommendations config confidence consistency outlierCount totalResults =
     (let recommendations =
            (if confidence < minimum config then [Review_providers] else [])
            @ (if consistency < Num 0.6 then [Clarify_criteria] else [])
            @ (if outlierCount > totalResults * Num 0.3 then [Many_outliers] else [])
            @ (if totalResults < Num 2 then [Enable_more_providers] else [])
      in if length recommendations = 0 then [Keep_settings] else recommendations)"

text \<open>
  The three weighted components and the clamped sum, the local constants
  \<open>consistencyComponent\<close>, \<open>outlierComponent\<close>, \<open>sampleSizeComponent\<close> and \<open>finalConfidence\<close>
  of \<open>calculateConfidence\<close>.
\<close>

definition consistencyComponent :: "confidence_config \<Rightarrow> jsnum \<Rightarrow> jsnum" where
  "consistencyComponent config consistency =
     Math_min (Num 1) consistency * consistency_weight (factors config)"

definition outlierRatio :: "jsnum \<Rightarrow> jsnum \<Rightarrow> jsnum" where
  "outlierRatio outlierCount totalResults =
     (if totalResults > Num 0 then outlierCount / totalResults else Num 0)"

definition outlierComponent :: "confidence_config \<Rightarrow> jsnum \<Rightarrow> jsnum \<Rightarrow> jsnum" where
  "outlierComponent config outlierCount totalResults =
     Math_max (Num 0) (Num 1 - outlierRatio outlierCount totalResults)
       * outlier_weight (factors config)"

definition sampleSizeComponent :: "confidence_config \<Rightarrow> jsnum \<Rightarrow> jsnum" where
  "sampleSizeComponent config totalResults =
     calculateSampleSizeContribution totalResults * sample_size_weight (factors config)"

definition finalConfidence ::
  "confidence_config \<Rightarrow> jsnum \<Rightarrow> jsnum \<Rightarrow> jsnum \<Rightarrow> additional_factors option \<Rightarrow> jsnum" where
  "finalConfidence config consistency outlierCount totalResults additionalFactors =
     (let baseConfidence = consistencyComponent config consistency
                             + outlierComponent config outlierCount totalResults
                             + sampleSizeComponent config totalResults
      in Math_min (Num 1)
           (Math_max (Num 0) (baseConfidence + calculateAdditionalFactors additionalFactors)))"

definition calculateConfidence ::
  "confidence_config \<Rightarrow> jsnum \<Rightarrow> jsnum \<Rightarrow> jsnum \<Rightarrow> additional_factors option
     \<Rightarrow> confidence_report" where
  "calculateConfidence config consistency outlierCount totalResults additionalFactors =
     (let additionalComponent = calculateAdditionalFactors additionalFactors;
          final = finalConfidence config consistency outlierCount totalResults additionalFactors
      in \<lparr>confidence_returned = toFixed 3 final,
          reliability_returned = determineReliability final consistency,
          components =
            \<lparr>consistency_component = toFixed 3 (consistencyComponent config consistency),
             outlier_component = toFixed 3 (outlierComponent config outlierCount totalResults),
             sampleSize_component = toFixed 3 (sampleSizeComponent config totalResults),
             additional_component =
               (if additionalComponent \<noteq> Num 0 then Some (toFixed 3 additionalComponent)
                else None)\<rparr>,
          assessment = generateAssessment config final,
          confidence_recommendations =
            generateRecommendations config final consistency outlierCount totalResults\<rparr>)"

section \<open>ConsistencyValidator (lib/domain/validators/consistency-validator.ts)\<close>

datatype consistency_status = PASS | FAIL | SINGLE_PROVIDER | INSUFFICIENT_DATA

datatype score_assessment = EXCELLENT | GOOD | ACCEPTABLE | POOR

datatype consistency_recommendation =
    Overall_below_minimum
  | Overall_below_target
  | Score_poor string
  | Score_deviation string jsnum
  | Consistency_good
  | Single_provider_only
  | Too_few_successes

record score_statistics =
  mean_stat :: jsnum
  standardDeviation :: jsnum
  coefficientOfVariation :: jsnum
  min_stat :: jsnum
  max_stat :: jsnum
  range_stat :: jsnum

record score_analysis =
  analysis_values :: "jsnum list"
  analysis_statistics :: score_statistics
  analysis_consistency :: jsnum
  analysis_assessment :: score_assessment

record overall_summary =
  overall_consistency :: jsnum
  overall_target :: jsnum
  overall_minimum :: jsnum
  status :: consistency_status

record consistency_report =
  consistency_returned :: jsnum
  isConsistent :: bool
  scorewise :: "(string \<times> score_analysis) list"
  overall :: overall_summary
  consistency_recommendations :: "consistency_recommendation list"

definition getSingleProviderResult :: "level_config \<Rightarrow> consistency_report" where
  "getSingleProviderResult config =
     \<lparr>consistency_returned = Num 1.0, isConsistent = True, scorewise = [],
      overall = \<lparr>overall_consistency = Num 1.0, overall_target = target config,
                 overall_minimum = minimum config, status = SINGLE_PROVIDER\<rparr>,
      consistency_recommendations = [Single_provider_only]\<rparr>"

definition getInsufficientDataResult :: "level_config \<Rightarrow> consistency_report" where
  "getInsufficientDataResult config =
     \<lparr>consistency_returned = Num 0.0, isConsistent = False, scorewise = [],
      overall = \<lparr>overall_consistency = Num 0.0, overall_target = target config,
                 overall_minimum = minimum config, status = INSUFFICIENT_DATA\<rparr>,
      consistency_recommendations = [Too_few_successes]\<rparr>"

definition extractScoreKeys :: "ProviderResult list \<Rightarrow> string list" where
  "extractScoreKeys results =
     foldl (\<lambda>keys result. if success result then foldl add_key keys (map fst (scores result))
                            else keys) [] results"

definition extractScoreValues :: "ProviderResult list \<Rightarrow> string \<Rightarrow> jsnum list" where
  "extractScoreValues results key =
     map the (filter is_number
       (map (\<lambda>r. map_of (scores r) key)
          (filter (\<lambda>r. success r \<and> map_of (scores r) key \<noteq> None) results)))"

definition assessScoreConsistency :: "jsnum \<Rightarrow> jsnum \<Rightarrow> score_assessment" where
  "assessScoreConsistency consistencyScore sd =
     (if consistencyScore \<ge> Num 0.8 \<and> sd \<le> Num 0.3 then EXCELLENT
      else if consistencyScore \<ge> Num 0.6 \<and> sd \<le> Num 0.5 then GOOD
      else if consistencyScore \<ge> Num 0.4 \<and> sd \<le> Num 0.8 then ACCEPTABLE
      else POOR)"

text \<open>
  The local constants \<open>mean\<close>, \<open>variance\<close>, \<open>standardDeviation\<close> and \<open>consistencyScore\<close> of
  \<open>calculateScoreConsistency\<close>, as functions of the values of one score.
\<close>

definition score_mean :: "jsnum list \<Rightarrow> jsnum" where
  "score_mean values = reduce_sum values / Num (real (length values))"

definition score_variance :: "jsnum list \<Rightarrow> jsnum" where
  "score_variance values =
     foldl (\<lambda>sum val. sum + Math_pow2 (val - score_mean values)) (Num 0) values
       / Num (real (length values))"

definition score_deviation :: "jsnum list \<Rightarrow> jsnum" where
  "score_deviation values = Math_sqrt (score_variance values)"

definition consistencyScore :: "jsnum list \<Rightarrow> jsnum" where
  "consistencyScore values = Math_max (Num 0) (Num 1 - score_deviation values / Num 2.5)"

definition calculateScoreConsistency :: "jsnum list \<Rightarrow> string \<Rightarrow> score_analysis" where
  "calculateScoreConsistency values scoreName =
     (let mean = score_mean values;
          sd = score_deviation values;
          cv = (if mean \<noteq> Num 0 then sd / mean else Num 0);
          lowest = Math_min_of values;
          highest = Math_max_of values;
          range = highest - lowest;
          consistencyScore = consistencyScore values
      in \<lparr>analysis_values = map (toFixed 2) values,
          analysis_statistics =
            \<lparr>mean_stat = toFixed 2 mean, standardDeviation = toFixed 3 sd,
             coefficientOfVariation = toFixed 3 cv, min_stat = lowest, max_stat = highest,
             range_stat = toFixed 2 range\<rparr>,
          analysis_consistency = toFixed 3 consistencyScore,
          analysis_assessment = assessScoreConsistency consistencyScore sd\<rparr>)"

definition analyzeScorewiseConsistency :: "ProviderResult list \<Rightarrow> (string \<times> score_analysis) list" where
  "analyzeScorewiseConsistency results =
     concat (map (\<lambda>key. let values = extractScoreValues results key
                         in if length values \<ge> 2
                            then [(key, calculateScoreConsistency values key)] else [])
                 (extractScoreKeys results))"

definition calculateOverallConsistency :: "(string \<times> score_analysis) list \<Rightarrow> jsnum" where
  "calculateOverallConsistency scorewiseAnalysis =
     (if length scorewiseAnalysis = 0 then Num 0
      else
        let (totalWeight, weightedSum) =
              foldl (\<lambda>(totalWeight, weightedSum) (key, analysis).
                       let weight = (if key = ''total_score'' then Num 0.4 else Num 0.2)
                       in (totalWeight + weight,
                           weightedSum + analysis_consistency analysis * weight))
                    (Num 0, Num 0) scorewiseAnalysis
        in if totalWeight > Num 0 then weightedSum / totalWeight else Num 0)"

definition consistency_generateRecommendations ::
  "level_config \<Rightarrow> (string \<times> score_analysis) list \<Rightarrow> jsnum \<Rightarrow> consistency_recommendation list" where
  "consistency_generateRecommendations config analysis overallConsistency =
     (let recommendations =
            (if overallConsistency < minimum config then [Overall_below_minimum] else [])
            @ (if overallConsistency < target config then [Overall_below_target] else [])
            @ concat (map (\<lambda>(key, scoreAnalysis).
                 (if analysis_assessment scoreAnalysis = POOR then [Score_poor key] else [])
                 @ (if standardDeviation (analysis_statistics scoreAnalysis) > Num 1.0
                    then [Score_deviation key (standardDeviation (analysis_statistics scoreAnalysis))]
                    else [])) analysis)
      in if length recommendations = 0 then [Consistency_good] else recommendations)"

definition validateConsistency :: "level_config \<Rightarrow> ProviderResult list \<Rightarrow> consistency_report" where
  "validateConsistency config results =
     (if length results < 2 then getSingleProviderResult config
      else
        let successfulResults = filter success results
        in if length successfulResults < 2 then getInsufficientDataResult config
           else
             let scorewiseAnalysis = analyzeScorewiseConsistency successfulResults;
                 overallConsistency = calculateOverallConsistency scorewiseAnalysis;
                 consistent = (overallConsistency \<ge> minimum config)
             in \<lparr>consistency_returned = overallConsistency, isConsistent = consistent,
                 scorewise = scorewiseAnalysis,
                 overall = \<lparr>overall_consistency = overallConsistency,
                            overall_target = target config,
                            overall_minimum = minimum config,
                            status = (if consistent then PASS else FAIL)\<rparr>,
                 consistency_recommendations =
                   consistency_generateRecommendations config scorewiseAnalysis overallConsistency\<rparr>)"

section \<open>Notions used in the statements\<close>

text \<open>A value lies outside the closed interval from \<open>lo\<close> to \<open>hi\<close>.\<close>

definition outside :: "jsnum \<Rightarrow> jsnum \<Rightarrow> jsnum \<Rightarrow> bool" where
  "outside lo hi v = (v < lo \<or> hi < v)"

text \<open>The detector's configuration with the default multiplier and minimum sample size.\<close>

definition default_detection :: outlier_config where
  "default_detection = \<lparr>multiplier = Num 1.5, min_samples = Num 3\<rparr>"

text \<open>
  The quartile as the specification words it: the ascending sample is read at the rank
  position \<open>(n - 1) * p\<close>, a position between two ranks giving the value on the straight
  line between the two neighbours.
\<close>

definition interpolate_rank :: "real list \<Rightarrow> real \<Rightarrow> real" where
  "interpolate_rank xs h =
     (let i = nat \<lfloor>h\<rfloor>
      in if real i = h then xs ! i else xs ! i + (h - real i) * (xs ! (i + 1) - xs ! i))"

definition quartile_by_interpolation :: "real list \<Rightarrow> real \<Rightarrow> real" where
  "quartile_by_interpolation xs p = interpolate_rank (sort xs) ((real (length xs) - 1) * p)"

text \<open>
  The same reading in the program's numbers, with the weights applied as \<open>calculateQuartile\<close>
  applies them: on a position between two ranks the lower neighbour is multiplied by one
  minus the fractional part of the position, the upper neighbour by the fractional part, and
  the two products are added.
\<close>

definition interpolate_position :: "jsnum list \<Rightarrow> real \<Rightarrow> jsnum" where
  "interpolate_position ascending h =
     (let i = nat \<lfloor>h\<rfloor>;
          fraction = h - real i
      in if fraction = 0 then ascending ! i
         else ascending ! i * Num (1 - fraction) + ascending ! (i + 1) * Num fraction)"

text \<open>
  A successful provider result that carries a total score only, and the three results of the
  specification's end-to-end example.
\<close>

definition total_only :: "string \<Rightarrow> jsnum \<Rightarrow> ProviderResult" where
  "total_only provider_name score =
     \<lparr>name = provider_name, model = ''model'', scores = [(''total_score'', score)],
      responseTime = 0, tokens = Num 0, cost = Num 0, success = True, error = None\<rparr>"

definition example_totals :: "jsnum list" where
  "example_totals = [Num 4.6, Num 4.5, Num 1.2]"

definition example_results :: "ProviderResult list" where
  "example_results =
     [total_only ''a'' (Num 4.6), total_only ''b'' (Num 4.5), total_only ''c'' (Num 1.2)]"

text \<open>
  The numeric total scores that the orchestrator's outlier detection reads from the results,
  in the order of the results; and four results with the total scores 1, 2, 3 and 10.
\<close>

definition total_scores :: "ProviderResult list \<Rightarrow> jsnum list" where
  "total_scores results =
     map the (filter is_number
       (map (\<lambda>result. or_else (map_of (scores result) ''total_score'')
                                (map_of (scores result) ''chongjeom'')) results))"

definition skewed_results :: "ProviderResult list" where
  "skewed_results =
     [total_only ''a'' (Num 1), total_only ''b'' (Num 2), total_only ''c'' (Num 3),
      total_only ''d'' (Num 10)]"

text \<open>
  A provider whose call returns a result with a total score only, and one whose call throws an
  \<open>Error\<close> with the given message.
\<close>

definition judge :: "string \<Rightarrow> jsnum \<Rightarrow> provider" where
  "judge provider_name score =
     \<lparr>getName = provider_name, getModel = ''model'',
      outcome = Resolved \<lparr>result_scores = Some \<lparr>eommu_neungryeok_subtotal = None,
                                                   munjangryeok_subtotal = None,
                                                   gibon_taedo_subtotal = None,
                                                   total_score = Some score\<rparr>,
                          result_tokens = None, result_cost = None\<rparr>,
      elapsed = 0\<rparr>"

definition failing_judge :: "string \<Rightarrow> string \<Rightarrow> provider" where
  "failing_judge provider_name message =
     \<lparr>getName = provider_name, getModel = ''model'', outcome = Rejected_Error message,
      elapsed = 0\<rparr>"

definition example_providers :: "provider list" where
  "example_providers = [judge ''a'' (Num 4.6), judge ''b'' (Num 4.5), judge ''c'' (Num 1.2)]"

text \<open>
  Thresholds used in the examples: the default outlier detection, and weights of the three
  confidence components that sum to one.
\<close>

definition example_confidence :: confidence_config where
  "example_confidence =
     \<lparr>target = Num 0.8, minimum = Num 0.6,
      factors = \<lparr>consistency_weight = Num 0.5, outlier_weight = Num 0.3,
                 sample_size_weight = Num 0.2\<rparr>\<rparr>"

definition example_thresholds :: ThresholdConfig where
  "example_thresholds =
     \<lparr>consistency_thresholds = \<lparr>target = Num 0.8, minimum = Num 0.6\<rparr>,
      confidence_thresholds = example_confidence,
      outlier_detection = default_detection\<rparr>"

definition example_request :: request_context where
  "example_request = \<lparr>criteria_version = ''1.0.0'', clock_ms = 0, clock_iso = ''''\<rparr>"

text \<open>
  The values that \<open>consolidateScores\<close> keeps as inliers of a sorted sample of three or more
  values (its local \<open>filteredValues\<close>), and the median of a sorted sample as the
  specification understands it: the middle value, or the mean of the two middle values.
\<close>

definition consolidation_inliers :: "jsnum list \<Rightarrow> jsnum list" where
  "consolidation_inliers sorted_values =
     (let first = sorted_values ! nat \<lfloor>real (length sorted_values) * 0.25\<rfloor>;
          third = sorted_values ! nat \<lfloor>real (length sorted_values) * 0.75\<rfloor>;
          spread = third - first
      in filter (\<lambda>v. v \<ge> first - Num 1.5 * spread \<and> v \<le> third + Num 1.5 * spread)
           sorted_values)"

definition sample_median :: "jsnum list \<Rightarrow> jsnum" where
  "sample_median sorted_values =
     (let n = length sorted_values
      in if even n then (sorted_values ! (n div 2 - 1) + sorted_values ! (n div 2)) / Num 2
         else sorted_values ! (n div 2))"

text \<open>Three providers that all report an infinite total score.\<close>

definition infinite_results :: "ProviderResult list" where
  "infinite_results = [total_only ''a'' PInf, total_only ''b'' PInf, total_only ''c'' PInf]"

text \<open>
  The sample-size component as the specification gives it, before weighting, and the sum of
  the three weighted components for finite inputs: consistency capped at one, the share of
  results that are no outliers, and the sample-size component.
\<close>

definition log_sample_size :: "real \<Rightarrow> real" where
  "log_sample_size n = ln (1 + min 1 (n / 5)) / ln 2"

definition weighted_base :: "real \<Rightarrow> real \<Rightarrow> real \<Rightarrow> real \<Rightarrow> real \<Rightarrow> real \<Rightarrow> real" where
  "weighted_base wc wo ws c oc t =
     min 1 c * wc
     + max 0 (1 - (if 0 < t then oc / t else 0)) * wo
     + (if t \<le> 0 then 0 else log_sample_size t) * ws"

definition finite_weights :: "real \<Rightarrow> real \<Rightarrow> real \<Rightarrow> confidence_factors" where
  "finite_weights wc wo ws =
     \<lparr>consistency_weight = Num wc, outlier_weight = Num wo, sample_size_weight = Num ws\<rparr>"

text \<open>The mean and the population standard deviation of a list of reals.\<close>

definition mean_of :: "real list \<Rightarrow> real" where
  "mean_of xs = sum_list xs / real (length xs)"

definition population_sd :: "real list \<Rightarrow> real" where
  "population_sd xs = sqrt ((\<Sum>x\<leftarrow>xs. (x - mean_of xs) ^ 2) / real (length xs))"

text \<open>Thresholds of the consistency validator used in the examples.\<close>

definition example_consistency :: level_config where
  "example_consistency = \<lparr>target = Num 0.8, minimum = Num 0.6\<rparr>"

text \<open>
  Two successful results with the total scores 2 and 4; the results of one provider that
  succeeds and one that fails; and the result of a single successful provider.
\<close>

definition two_results :: "ProviderResult list" where
  "two_results = [total_only ''a'' (Num 2), total_only ''b'' (Num 4)]"

definition mixed_results :: "ProviderResult list" where
  "mixed_results = map evaluate_provider [judge ''a'' (Num 4.6), failing_judge ''b'' ''timeout'']"

definition single_result :: "ProviderResult list" where
  "single_result = [total_only ''a'' (Num 4.6)]"

text \<open>Two successful results with the total scores 2 and 3.\<close>

definition close_results :: "ProviderResult list" where
  "close_results = [total_only ''a'' (Num 2), total_only ''b'' (Num 3)]"

text \<open>Two successful results that agree on the total score 4.\<close>

definition agreeing_results :: "ProviderResult list" where
  "agreeing_results = [total_only ''a'' (Num 4), total_only ''b'' (Num 4)]"

text \<open>
  A provider whose call returned a result; and three providers of which the second fails.
\<close>

definition succeeds :: "provider \<Rightarrow> bool" where
  "succeeds p = (case outcome p of Resolved result \<Rightarrow> True | Rejected_Error message \<Rightarrow> False
                 | Rejected_other \<Rightarrow> False)"

definition partly_failing_providers :: "provider list" where
  "partly_failing_providers =
     [judge ''a'' (Num 4.6), failing_judge ''b'' ''timeout'', judge ''c'' (Num 4.4)]"

section \<open>Facts about sorting and the detector\<close>

lemma detectOutliers_unfold:
  "detectOutliers config values =
     (if Num (real (length values)) < min_samples config then getEmptyResult values
      else detect_sorted config values (Array_sort by_difference values))"
  by (simp add: detectOutliers_def detectOutliers_store_def Let_def)

lemma outside_fun: "outside lo hi = (\<lambda>v. v < lo \<or> hi < v)"
  by (rule ext) (simp add: outside_def)

lemma classify_step_pair:
  "classify_step lo hi (outs, idxs, filt) (i, v) =
     (if outside lo hi v then (outs @ [v], idxs @ [i], filt) else (outs, idxs, filt @ [v]))"
  by (simp add: classify_step_def outside_def)

lemma classify_fold_parts:
  "foldl (classify_step lo hi) (outs, idxs, filt) (List.enumerate k xs) =
     (outs @ filter (outside lo hi) xs,
      idxs @ filter (\<lambda>i. outside lo hi (xs ! (i - k))) [k..<k + length xs],
      filt @ filter (\<lambda>v. \<not> outside lo hi v) xs)"
proof (induction xs arbitrary: outs idxs filt k)
  case Nil
  then show ?case by simp
next
  case (Cons x xs)
  have shift: "filter (\<lambda>i. outside lo hi ((x # xs) ! (i - k))) [Suc k..<Suc (k + length xs)]
      = filter (\<lambda>i. outside lo hi (xs ! (i - Suc k))) [Suc k..<Suc (k + length xs)]"
    by (rule filter_cong) (auto simp: nth_Cons')
  have upt: "[k..<k + length (x # xs)] = k # [Suc k..<Suc (k + length xs)]"
    using upt_conv_Cons[of k "k + length (x # xs)"] by simp
  show ?case
    unfolding upt by (simp add: classify_step_pair Cons.IH shift del: upt_Suc)
qed

lemma detect_sorted_parts:
  "\<exists>lo hi. outliers (detect_sorted config values sortedValues) = filter (outside lo hi) values
     \<and> outlierIndices (detect_sorted config values sortedValues)
          = filter (\<lambda>i. outside lo hi (values ! i)) [0..<length values]
     \<and> filteredValues (detect_sorted config values sortedValues)
          = filter (\<lambda>v. \<not> outside lo hi v) values"
  unfolding detect_sorted_def Let_def classify_fold_parts by auto

lemma partition_by_position:
  fixes xs :: "'a list" and P :: "'a \<Rightarrow> bool"
  defines "idxs \<equiv> filter (\<lambda>i. P (xs ! i)) [0..<length xs]"
  shows "filter P xs = map ((!) xs) idxs"
    and "filter (\<lambda>v. \<not> P v) xs = nths xs {i. i < length xs \<and> i \<notin> set idxs}"
    and "sorted_wrt (<) idxs"
    and "set idxs \<subseteq> {..<length xs}"
proof -
  have "map ((!) xs) idxs = filter P (map ((!) xs) [0..<length xs])"
    unfolding idxs_def by (simp add: filter_map comp_def)
  then show "filter P xs = map ((!) xs) idxs" by (simp add: map_nth)
  have "{i. i < length xs \<and> i \<notin> set idxs} = {i. i < length xs \<and> \<not> P (xs ! i)}"
    unfolding idxs_def by auto
  then show "filter (\<lambda>v. \<not> P v) xs = nths xs {i. i < length xs \<and> i \<notin> set idxs}"
    by (simp add: filter_eq_nths)
  show "sorted_wrt (<) idxs" unfolding idxs_def by (simp add: sorted_wrt_filter)
  show "set idxs \<subseteq> {..<length xs}" unfolding idxs_def by auto
qed


lemma detect_store_result:
  assumes "values_ref < length store"
  shows "fst (detectOutliers_store config values_ref store) = detectOutliers config (store ! values_ref)"
  using assms
  by (simp add: detectOutliers_unfold detectOutliers_store_def Let_def nth_append)

lemma detect_store_unchanged:
  assumes "values_ref < length store"
  shows "snd (detectOutliers_store config values_ref store) ! values_ref = store ! values_ref"
    and "take (length store) (snd (detectOutliers_store config values_ref store)) = store"
  using assms
  by (simp_all add: detectOutliers_store_def Let_def nth_append)

lemma detectOutliers_parts:
  "\<exists>P. outliers (detectOutliers config values) = filter P values
     \<and> outlierIndices (detectOutliers config values) = filter (\<lambda>i. P (values ! i)) [0..<length values]
     \<and> filteredValues (detectOutliers config values) = filter (\<lambda>v. \<not> P v) values"
proof (cases "Num (real (length values)) < min_samples config")
  case True
  then have "outliers (detectOutliers config values) = filter (\<lambda>_. False) values
     \<and> outlierIndices (detectOutliers config values) = filter (\<lambda>i. False) [0..<length values]
     \<and> filteredValues (detectOutliers config values) = filter (\<lambda>v. \<not> False) values"
    by (simp add: detectOutliers_unfold getEmptyResult_def)
  then show ?thesis by blast
next
  case False
  then show ?thesis
    using detect_sorted_parts[of config "values" "Array_sort by_difference values"]
    by (auto simp: detectOutliers_unfold)
qed

lemma insort_cmp_Num:
  "insort_cmp by_difference (Num x) (map Num ys) = map Num (insort x ys)"
  by (induction ys) (auto simp: by_difference_def)

lemma Array_sort_Num: "Array_sort by_difference (map Num xs) = map Num (sort xs)"
  by (induction xs) (simp_all add: Array_sort_def insort_cmp_Num sort_key_def)

lemma calculateQuartile_interpolates:
  assumes "ys \<noteq> []" and "0 \<le> p" and "p \<le> 1"
  shows "calculateQuartile ys p = interpolate_position ys ((real (length ys) - 1) * p)"
proof -
  define n where "n = length ys"
  define h where "h = (real n - 1) * p"
  have n1: "1 \<le> n" using assms(1) by (cases ys) (simp_all add: n_def)
  have h0: "0 \<le> h" using n1 assms(2) by (simp add: h_def)
  have "h \<le> (real n - 1) * 1" unfolding h_def using n1 assms(3) by (intro mult_left_mono) simp_all
  then have hn: "h \<le> real n - 1" by simp
  have fl0: "0 \<le> \<lfloor>h\<rfloor>" using h0 by simp
  have "\<lfloor>h\<rfloor> \<le> \<lfloor>real n - 1\<rfloor>" using hn by (rule floor_mono)
  also have "\<lfloor>real n - 1\<rfloor> = int n - 1" by linarith
  finally have fln: "\<lfloor>h\<rfloor> \<le> int n - 1" .
  have lt: "nat \<lfloor>h\<rfloor> < length ys" using fl0 fln unfolding n_def by linarith
  have li: "js_index ys \<lfloor>h\<rfloor> = ys ! nat \<lfloor>h\<rfloor>"
    using fl0 fln lt by (simp add: js_index_def n_def)
  have rr: "real (nat \<lfloor>h\<rfloor>) = real_of_int \<lfloor>h\<rfloor>" using fl0 by simp
  have code: "calculateQuartile ys p =
      (if \<lfloor>h\<rfloor> = \<lceil>h\<rceil> then js_index ys \<lfloor>h\<rfloor>
       else js_index ys \<lfloor>h\<rfloor> * Num (1 - (h - real_of_int \<lfloor>h\<rfloor>))
            + js_index ys \<lceil>h\<rceil> * Num (h - real_of_int \<lfloor>h\<rfloor>))"
    by (simp add: calculateQuartile_def Let_def n_def h_def)
  have "calculateQuartile ys p = interpolate_position ys h"
  proof (cases "h = of_int \<lfloor>h\<rfloor>")
    case True
    then have c: "\<lceil>h\<rceil> = \<lfloor>h\<rfloor>" by (simp add: ceiling_altdef)
    have z: "h - real_of_int \<lfloor>h\<rfloor> = 0" using True by simp
    show ?thesis
      unfolding code li c interpolate_position_def Let_def rr z by simp
  next
    case False
    then have c: "\<lceil>h\<rceil> = \<lfloor>h\<rfloor> + 1" by (simp add: ceiling_altdef)
    have nz: "h - real_of_int \<lfloor>h\<rfloor> \<noteq> 0" using False by simp
    have "h < real n - 1"
    proof (rule ccontr)
      assume "\<not> h < real n - 1"
      then have "h = real n - 1" using hn by simp
      then have "h = of_int (int n - 1)" by simp
      then have "h = of_int \<lfloor>h\<rfloor>" by (metis floor_of_int)
      then show False using False by simp
    qed
    then have "\<lfloor>h\<rfloor> < int n - 1" by linarith
    then have up: "\<lfloor>h\<rfloor> + 1 < int n" by simp
    have nat1: "nat (\<lfloor>h\<rfloor> + 1) = nat \<lfloor>h\<rfloor> + 1" using fl0 by linarith
    have ui: "js_index ys (\<lfloor>h\<rfloor> + 1) = ys ! (nat \<lfloor>h\<rfloor> + 1)"
      using fl0 up nat1 by (simp add: js_index_def n_def)
    have ne: "\<lfloor>h\<rfloor> \<noteq> \<lfloor>h\<rfloor> + 1" by simp
    show ?thesis
      unfolding code li c ui interpolate_position_def Let_def rr
      using nz ne by simp
  qed
  then show ?thesis by (simp add: h_def n_def)
qed

lemma enumerate_positions:
  "map fst (filter (\<lambda>(index, score). P score) (List.enumerate k xs))
     = filter (\<lambda>i. P (xs ! (i - k))) [k..<k + length xs]"
proof (induction xs arbitrary: k)
  case Nil
  then show ?case by simp
next
  case (Cons x xs)
  have shift: "filter (\<lambda>i. P ((x # xs) ! (i - k))) [Suc k..<Suc (k + length xs)]
      = filter (\<lambda>i. P (xs ! (i - Suc k))) [Suc k..<Suc (k + length xs)]"
    by (rule filter_cong) (auto simp: nth_Cons')
  have upt: "[k..<k + length (x # xs)] = k # [Suc k..<Suc (k + length xs)]"
    using upt_conv_Cons[of k "k + length (x # xs)"] by simp
  show ?case
    unfolding upt using Cons.IH[of "Suc k"] by (simp add: shift del: upt_Suc)
qed

lemma detect_sorted_fields:
  "detect_sorted config vals sortedValues =
     (let q1v = calculateQuartile sortedValues 0.25;
          q3v = calculateQuartile sortedValues 0.75;
          iqrv = q3v - q1v;
          lo = q1v - multiplier config * iqrv;
          hi = q3v + multiplier config * iqrv
      in \<lparr>outliers = filter (outside lo hi) vals,
          outlierIndices = filter (\<lambda>i. outside lo hi (vals ! i)) [0..<length vals],
          statistics = \<lparr>q1 = q1v, q3 = q3v, iqr = iqrv, lowerBound = lo, upperBound = hi,
                        outlierCount_stat = length (filter (outside lo hi) vals),
                        outlierPercentage =
                          Num (real (length (filter (outside lo hi) vals))) / Num (real (length vals)) * Num 100\<rparr>,
          filteredValues = filter (\<lambda>v. \<not> outside lo hi v) vals\<rparr>)"
  by (simp add: detect_sorted_def Let_def classify_fold_parts)

section \<open>Facts about the consolidation of one score\<close>

lemma js_le_trans: "(a :: jsnum) \<le> b \<Longrightarrow> b \<le> c \<Longrightarrow> a \<le> c"
  by (cases a; cases b; cases c) auto

lemma by_difference_order:
  assumes "x \<noteq> NaN" and "y \<noteq> NaN"
  shows "(Num 0 < by_difference x y) = (\<not> x \<le> y)" and "\<not> x \<le> y \<Longrightarrow> y \<le> x"
  using assms by (cases x; cases y; auto simp: by_difference_def)+

lemma set_insort_cmp: "set (insort_cmp cmp x ys) = insert x (set ys)"
  by (induction ys) auto

lemma length_insort_cmp: "length (insort_cmp cmp x ys) = Suc (length ys)"
  by (induction ys) auto

lemma set_Array_sort: "set (Array_sort cmp xs) = set xs"
  by (induction xs) (simp_all add: Array_sort_def set_insort_cmp)

lemma length_Array_sort: "length (Array_sort cmp xs) = length xs"
  by (induction xs) (simp_all add: Array_sort_def length_insort_cmp)

lemma sorted_insort_cmp:
  assumes "x \<noteq> NaN" and "NaN \<notin> set ys" and "sorted_wrt (\<le>) ys"
  shows "sorted_wrt (\<le>) (insort_cmp by_difference x ys)"
  using assms
proof (induction ys)
  case Nil
  then show ?case by simp
next
  case (Cons y ys)
  then have y: "y \<noteq> NaN" by auto
  show ?case
  proof (cases "x \<le> y")
    case True
    then have "\<forall>z\<in>set ys. x \<le> z" using Cons.prems(3) by (auto intro: js_le_trans)
    then show ?thesis
      using True Cons.prems by_difference_order(1)[OF Cons.prems(1) y] by simp
  next
    case False
    then have "y \<le> x" using by_difference_order(2)[OF Cons.prems(1) y] by simp
    then show ?thesis
      using False Cons by_difference_order(1)[OF Cons.prems(1) y]
      by (auto simp: set_insort_cmp)
  qed
qed

lemma sorted_Array_sort:
  assumes "NaN \<notin> set xs"
  shows "sorted_wrt (\<le>) (Array_sort by_difference xs)"
  using assms
proof (induction xs)
  case Nil
  then show ?case by (simp add: Array_sort_def)
next
  case (Cons x xs)
  then have "sorted_wrt (\<le>) (Array_sort by_difference xs)" by simp
  moreover have "NaN \<notin> set (Array_sort by_difference xs)" using Cons.prems by (simp add: set_Array_sort)
  moreover have "x \<noteq> NaN" using Cons.prems by auto
  ultimately have "sorted_wrt (\<le>) (insort_cmp by_difference x (Array_sort by_difference xs))"
    by (intro sorted_insort_cmp)
  then show ?case by (simp add: Array_sort_def)
qed

lemma key_values_no_NaN: "NaN \<notin> set (key_values results key)"
  by (auto simp: key_values_def is_number_def isNaN_def split: option.splits)

lemma floor_fractions:
  "nat \<lfloor>real n / 4\<rfloor> = n div 4" "nat \<lfloor>real n * 3 / 4\<rfloor> = (3 * n) div 4" "nat \<lfloor>real n / 2\<rfloor> = n div 2"
proof -
  have "\<lfloor>real n / real 4\<rfloor> = int (n div 4)" by (rule floor_divide_of_nat_eq)
  then show "nat \<lfloor>real n / 4\<rfloor> = n div 4" by simp
  have "\<lfloor>real (3 * n) / real 4\<rfloor> = int ((3 * n) div 4)" by (rule floor_divide_of_nat_eq)
  then show "nat \<lfloor>real n * 3 / 4\<rfloor> = (3 * n) div 4" by (simp add: algebra_simps)
  have "\<lfloor>real n / real 2\<rfloor> = int (n div 2)" by (rule floor_divide_of_nat_eq)
  then show "nat \<lfloor>real n / 2\<rfloor> = n div 2" by simp
qed

lemma orchestrator_detectOutliers_positions:
  assumes "total_scores results = map Num ys" and "3 \<le> length ys"
  shows "orchestrator_detectOutliers thresholds results =
     (let ascending = map Num (sort ys);
          n = length ys;
          first = ascending ! (n div 4);
          third = ascending ! ((3 * n) div 4);
          spread = third - first;
          k = multiplier (outlier_detection thresholds);
          lo = first - k * spread;
          hi = third + k * spread
      in filter (\<lambda>i. outside lo hi (ascending ! i)) [0..<n])"
proof -
  have "length (total_scores results) \<le> length results"
    unfolding total_scores_def by (simp add: le_trans[OF length_filter_le])
  then have three: "\<not> length results < 3" using assms by simp
  have sorted: "Array_sort by_difference (map the (filter is_number
              (map (\<lambda>result. or_else (map_of (scores result) ''total_score'')
                                       (map_of (scores result) ''chongjeom'')) results)))
          = map Num (sort ys)"
    using assms(1) by (simp add: total_scores_def Array_sort_Num)
  show ?thesis
    unfolding orchestrator_detectOutliers_def sorted Let_def
    using three assms(2) enumerate_positions[of "\<lambda>score. outside lo hi score" 0 "map Num (sort ys)" for lo hi]
    by (simp add: floor_fractions outside_def)
qed

lemma consolidateValues_three:
  assumes "3 \<le> length vs"
  shows "consolidateValues vs =
     (if consolidation_inliers vs \<noteq> []
      then Some (reduce_sum (consolidation_inliers vs) / Num (real (length (consolidation_inliers vs))))
      else Some (vs ! (length vs div 2)))"
proof -
  have "vs \<noteq> []" "length vs \<noteq> 1" "length vs \<noteq> 2" using assms by auto
  then show ?thesis
    by (simp add: consolidateValues_def consolidation_inliers_def Let_def floor_fractions)
qed

lemma quartile_inlier_or_infinite:
  assumes "first \<noteq> NaN" and "third \<noteq> NaN" and "first \<le> third"
    and "\<not> (first \<ge> first - Num 1.5 * (third - first) \<and> first \<le> third + Num 1.5 * (third - first))"
  shows "first = third \<and> (first = PInf \<or> first = NInf)"
  using assms by (cases first; cases third) (auto split: if_splits simp: field_simps)

lemma sorted_above_PInf:
  assumes "sorted_wrt (\<le>) vs" and "i \<le> j" and "j < length vs" and "vs ! i = PInf"
  shows "vs ! j = PInf"
proof (cases "i = j")
  case True
  then show ?thesis using assms by simp
next
  case False
  then have "i < j" using assms(2) by simp
  then have "vs ! i \<le> vs ! j" using assms(1,3) sorted_wrt_nth_less[of "(\<le>)" vs i j] by blast
  then show ?thesis using assms(4) by (cases "vs ! j") auto
qed

lemma sorted_below_NInf:
  assumes "sorted_wrt (\<le>) vs" and "i \<le> j" and "j < length vs" and "vs ! j = NInf"
  shows "vs ! i = NInf"
proof (cases "i = j")
  case True
  then show ?thesis using assms by simp
next
  case False
  then have "i < j" using assms(2) by simp
  then have "vs ! i \<le> vs ! j" using assms(1,3) sorted_wrt_nth_less[of "(\<le>)" vs i j] by blast
  then show ?thesis using assms(4) by (cases "vs ! i") auto
qed

lemma degenerate_quartiles:
  assumes srt: "sorted_wrt (\<le>) vs" and nan: "NaN \<notin> set vs" and n3: "3 \<le> length vs"
    and empty: "consolidation_inliers vs = []"
  shows "vs ! (length vs div 4) = vs ! ((3 * length vs) div 4)
         \<and> (vs ! (length vs div 4) = PInf \<or> vs ! (length vs div 4) = NInf)"
proof -
  define n where "n = length vs"
  define first where "first = vs ! (n div 4)"
  define third where "third = vs ! ((3 * n) div 4)"
  have i1: "n div 4 < n" and i3: "(3 * n) div 4 < n" and i13: "n div 4 \<le> (3 * n) div 4"
    using n3 unfolding n_def by auto
  have f_in: "first \<in> set vs" and t_in: "third \<in> set vs"
    using i1 i3 unfolding first_def third_def n_def by simp_all
  have fn: "first \<noteq> NaN" and tn: "third \<noteq> NaN" using f_in t_in nan by auto
  have ft: "first \<le> third"
  proof (cases "n div 4 = (3 * n) div 4")
    case True
    then show ?thesis using fn unfolding first_def third_def by (cases "vs ! (n div 4)") auto
  next
    case False
    then show ?thesis using srt i13 i3 unfolding first_def third_def n_def
      by (simp add: sorted_wrt_nth_less)
  qed
  have "first \<notin> set (consolidation_inliers vs)" using empty by simp
  then have out: "\<not> (first \<ge> first - Num 1.5 * (third - first) \<and> first \<le> third + Num 1.5 * (third - first))"
    using f_in
    by (simp add: consolidation_inliers_def Let_def floor_fractions first_def third_def n_def)
  show ?thesis
    using quartile_inlier_or_infinite[OF fn tn ft out]
    unfolding first_def third_def n_def by blast
qed

lemma degenerate_sample:
  assumes srt: "sorted_wrt (\<le>) vs" and nan: "NaN \<notin> set vs" and n3: "3 \<le> length vs"
    and empty: "consolidation_inliers vs = []"
  shows "vs ! (length vs div 2) = sample_median vs \<and> sample_median vs \<noteq> NaN"
proof -
  define n where "n = length vs"
  have i3: "(3 * n) div 4 < length vs"
    using n3 unfolding n_def by auto
  have m: "n div 2 < n" "n div 4 \<le> n div 2" "n div 2 \<le> (3 * n) div 4"
          "even n \<Longrightarrow> n div 4 \<le> n div 2 - 1" "n div 2 - 1 \<le> (3 * n) div 4" "n div 2 - 1 < n"
    using n3 unfolding n_def by (auto elim!: evenE)
  from degenerate_quartiles[OF assms, folded n_def] show ?thesis
  proof (elim conjE disjE)
    assume a: "vs ! (n div 4) = PInf"
    have "vs ! (n div 2) = PInf"
      using sorted_above_PInf[OF srt m(2) _ a] m(1) by (simp add: n_def)
    moreover have "even n \<Longrightarrow> vs ! (n div 2 - 1) = PInf"
      using sorted_above_PInf[OF srt m(4) _ a] m(6) by (simp add: n_def)
    ultimately show ?thesis by (simp add: sample_median_def Let_def n_def[symmetric])
  next
    assume "vs ! (n div 4) = vs ! ((3 * n) div 4)" "vs ! (n div 4) = NInf"
    then have a: "vs ! ((3 * n) div 4) = NInf" by simp
    have "vs ! (n div 2) = NInf"
      using sorted_below_NInf[OF srt m(3) i3 a] .
    moreover have "vs ! (n div 2 - 1) = NInf"
      using sorted_below_NInf[OF srt m(5) i3 a] .
    ultimately show ?thesis by (simp add: sample_median_def Let_def n_def[symmetric])
  qed
qed

section \<open>Facts about rounding and the confidence components\<close>

lemma Math_max_Num [simp]: "Math_max (Num a) (Num b) = Num (max a b)"
  by (simp add: Math_max_def max_def)

lemma Math_min_Num [simp]: "Math_min (Num a) (Num b) = Num (min a b)"
  by (simp add: Math_min_def min_def)

lemma round_dec_nonneg:
  assumes "0 \<le> x" and "x < 10 ^ 21"
  shows "round_dec d x = real_of_int \<lfloor>x * 10 ^ d + 1 / 2\<rfloor> / 10 ^ d"
proof (cases "x = 0")
  case True
  then show ?thesis by (simp add: round_dec_def)
next
  case False
  then have "0 < x" using assms(1) by simp
  then show ?thesis using assms(2) by (simp add: round_dec_def)
qed

lemma round_dec_mono:
  assumes "0 \<le> x" and "x \<le> y" and "y < 10 ^ 21"
  shows "round_dec d x \<le> round_dec d y"
proof -
  have "x * 10 ^ d + 1 / 2 \<le> y * 10 ^ d + 1 / 2" using assms(2) by simp
  then have "\<lfloor>x * 10 ^ d + 1 / 2\<rfloor> \<le> \<lfloor>y * 10 ^ d + 1 / 2\<rfloor>" by (rule floor_mono)
  then show ?thesis
    using assms by (simp add: round_dec_nonneg divide_right_mono)
qed

lemma round_dec_unit:
  assumes "0 \<le> x" and "x \<le> 1"
  shows "0 \<le> round_dec d x" and "round_dec d x \<le> 1"
proof -
  have lt: "x < 10 ^ 21" using assms(2) by (rule le_less_trans) simp
  have "(0::real) < 10 ^ 21" by simp
  have "round_dec d 0 \<le> round_dec d x" using assms lt by (intro round_dec_mono) simp_all
  then show "0 \<le> round_dec d x" by (simp add: round_dec_def)
  have "round_dec d x \<le> round_dec d 1" using assms by (intro round_dec_mono) simp_all
  moreover have "round_dec d 1 = 1"
  proof -
    have "\<lfloor>(10::real) ^ d + 1 / 2\<rfloor> = \<lfloor>real_of_int (10 ^ d) + 1 / 2\<rfloor>" by simp
    also have "\<dots> = 10 ^ d" by linarith
    finally show ?thesis by (simp add: round_dec_def)
  qed
  ultimately show "round_dec d x \<le> 1" by simp
qed

lemma round_dec_close:
  assumes "0 \<le> x" and "x \<le> 1"
  shows "\<bar>round_dec 3 x - x\<bar> \<le> 1 / 2000"
proof -
  have lt: "x < 10 ^ 21" using assms(2) by (rule le_less_trans) simp
  define y where "y = x * 1000"
  have r: "round_dec 3 x = real_of_int \<lfloor>y + 1 / 2\<rfloor> / 1000"
    using round_dec_nonneg[OF assms(1) lt, of 3] by (simp add: y_def)
  have x: "x = y / 1000" by (simp add: y_def)
  have "real_of_int \<lfloor>y + 1 / 2\<rfloor> \<le> y + 1 / 2" by (rule of_int_floor_le)
  moreover have "y + 1 / 2 < real_of_int \<lfloor>y + 1 / 2\<rfloor> + 1" by linarith
  ultimately have "\<bar>real_of_int \<lfloor>y + 1 / 2\<rfloor> - y\<bar> \<le> 1 / 2" by linarith
  then have "\<bar>real_of_int \<lfloor>y + 1 / 2\<rfloor> / 1000 - y / 1000\<bar> \<le> 1 / 2000" by linarith
  then show ?thesis unfolding r by (simp only: x[symmetric])
qed

lemma sample_size_Num:
  "calculateSampleSizeContribution (Num t) =
     Num (if t \<le> 0 then 0 else log_sample_size t)"
proof (cases "t \<le> 0")
  case True
  then show ?thesis by (simp add: calculateSampleSizeContribution_def)
next
  case False
  then have "0 < min 1 (t / 5)" by simp
  then have "\<not> 1 + min 1 (t / 5) < 0" "1 + min 1 (t / 5) \<noteq> 0" by linarith+
  then show ?thesis
    using False by (simp add: calculateSampleSizeContribution_def log_sample_size_def Let_def)
qed

lemma base_Num:
  assumes "factors config = finite_weights wc wo ws"
  shows "consistencyComponent config (Num c) + outlierComponent config (Num oc) (Num t)
           + sampleSizeComponent config (Num t) = Num (weighted_base wc wo ws c oc t)"
  using assms
  by (simp add: consistencyComponent_def outlierComponent_def outlierRatio_def
      sampleSizeComponent_def sample_size_Num weighted_base_def finite_weights_def)

lemma finalConfidence_cases:
  assumes "factors config = finite_weights wc wo ws"
  shows "finalConfidence config (Num c) (Num oc) (Num t) af =
     (case calculateAdditionalFactors af of
        Num a \<Rightarrow> Num (min 1 (max 0 (weighted_base wc wo ws c oc t + a)))
      | PInf \<Rightarrow> Num 1 | NInf \<Rightarrow> Num 0 | NaN \<Rightarrow> NaN)"
  by (cases "calculateAdditionalFactors af")
     (simp_all add: finalConfidence_def Let_def base_Num[OF assms] Math_max_def Math_min_def)

lemma weighted_base_antimono:
  assumes "0 \<le> wo" and "oc1 \<le> oc2"
  shows "weighted_base wc wo ws c oc2 t \<le> weighted_base wc wo ws c oc1 t"
proof -
  have "(if 0 < t then oc1 / t else 0) \<le> (if 0 < t then oc2 / t else 0)"
    using assms(2) by (simp add: divide_right_mono)
  then have "max 0 (1 - (if 0 < t then oc2 / t else 0)) \<le> max 0 (1 - (if 0 < t then oc1 / t else 0))"
    by linarith
  then have "max 0 (1 - (if 0 < t then oc2 / t else 0)) * wo \<le> max 0 (1 - (if 0 < t then oc1 / t else 0)) * wo"
    using assms(1) by (rule mult_right_mono)
  then show ?thesis unfolding weighted_base_def by linarith
qed

lemma returned_confidence_antimono:
  assumes w: "factors config = finite_weights wc wo ws" and "0 \<le> wo" and "oc1 \<le> oc2"
  shows "calculateAdditionalFactors af \<noteq> NaN \<Longrightarrow>
           confidence_returned (calculateConfidence config (Num c) (Num oc2) (Num t) af)
             \<le> confidence_returned (calculateConfidence config (Num c) (Num oc1) (Num t) af)"
    and "\<not> confidence_returned (calculateConfidence config (Num c) (Num oc1) (Num t) af)
             < confidence_returned (calculateConfidence config (Num c) (Num oc2) (Num t) af)"
proof -
  let ?b1 = "weighted_base wc wo ws c oc1 t" and ?b2 = "weighted_base wc wo ws c oc2 t"
  have b: "?b2 \<le> ?b1" using assms(2,3) by (rule weighted_base_antimono)
  have r: "round_dec 3 (min 1 (max 0 (?b2 + a))) \<le> round_dec 3 (min 1 (max 0 (?b1 + a)))" for a
  proof (rule round_dec_mono)
    show "min 1 (max 0 (?b2 + a)) \<le> min 1 (max 0 (?b1 + a))" using b by linarith
    have "min 1 (max 0 (?b1 + a)) \<le> 1" by simp
    then show "min 1 (max 0 (?b1 + a)) < 10 ^ 21" by (rule le_less_trans) simp
  qed simp
  show "calculateAdditionalFactors af \<noteq> NaN \<Longrightarrow>
           confidence_returned (calculateConfidence config (Num c) (Num oc2) (Num t) af)
             \<le> confidence_returned (calculateConfidence config (Num c) (Num oc1) (Num t) af)"
    using r
    by (cases "calculateAdditionalFactors af")
       (simp_all add: calculateConfidence_def Let_def finalConfidence_cases[OF w])
  show "\<not> confidence_returned (calculateConfidence config (Num c) (Num oc1) (Num t) af)
             < confidence_returned (calculateConfidence config (Num c) (Num oc2) (Num t) af)"
    using r
    by (cases "calculateAdditionalFactors af")
       (simp_all add: calculateConfidence_def Let_def finalConfidence_cases[OF w] not_less)
qed

lemma orchestrator_confidence_Num:
  assumes "factors (confidence_thresholds thresholds) = finite_weights wc wo ws" and "0 < t"
  shows "orchestrator_calculateConfidence thresholds (Num c) (Num oc) (Num t)
           = Num (min 1 (max 0 (c * wc + max 0 (1 - oc / t) * wo + min 1 (t / 3) * ws)))"
  using assms
  by (simp add: orchestrator_calculateConfidence_def sampleSizeRatio_def Let_def finite_weights_def)

lemma orchestrator_confidence_antimono:
  assumes w: "factors (confidence_thresholds thresholds) = finite_weights wc wo ws"
    and "0 < t" and "0 \<le> wo" and "oc1 \<le> oc2"
  shows "orchestrator_calculateConfidence thresholds (Num c) (Num oc2) (Num t)
           \<le> orchestrator_calculateConfidence thresholds (Num c) (Num oc1) (Num t)"
proof -
  have "oc1 / t \<le> oc2 / t" using assms(2,4) by (simp add: divide_right_mono)
  then have "max 0 (1 - oc2 / t) \<le> max 0 (1 - oc1 / t)" by linarith
  then have "max 0 (1 - oc2 / t) * wo \<le> max 0 (1 - oc1 / t) * wo"
    using assms(3) by (rule mult_right_mono)
  then show ?thesis
    unfolding orchestrator_confidence_Num[OF w assms(2)] by simp linarith
qed

lemma example_weights: "factors example_confidence = finite_weights 0.5 0.3 0.2"
  by (simp add: example_confidence_def finite_weights_def)

lemma no_additional_factors: "calculateAdditionalFactors None = Num 0"
  by (simp add: calculateAdditionalFactors_def)

lemma log_sample_size_five: "log_sample_size 5 = 1"
  by (simp add: log_sample_size_def)

section \<open>Facts about the consistency validator\<close>

lemma foldl_sum_Num:
  "foldl (\<lambda>sum val. sum + val) (Num a) (map Num xs) = Num (a + sum_list xs)"
  by (induction xs arbitrary: a) (simp_all add: add.assoc)

lemma foldl_squares_Num:
  "foldl (\<lambda>sum val. sum + Math_pow2 (val - Num m)) (Num a) (map Num xs)
     = Num (a + (\<Sum>x\<leftarrow>xs. (x - m) ^ 2))"
  by (induction xs arbitrary: a) (simp_all add: add.assoc)

lemma score_mean_Num:
  assumes "xs \<noteq> []"
  shows "score_mean (map Num xs) = Num (mean_of xs)"
  using assms by (simp add: score_mean_def reduce_sum_def foldl_sum_Num mean_of_def)

lemma score_variance_Num:
  assumes "xs \<noteq> []"
  shows "score_variance (map Num xs)
           = Num ((\<Sum>x\<leftarrow>xs. (x - mean_of xs) ^ 2) / real (length xs))"
  using assms by (simp add: score_variance_def score_mean_Num foldl_squares_Num)

lemma score_deviation_Num:
  assumes "xs \<noteq> []"
  shows "score_deviation (map Num xs) = Num (population_sd xs)"
proof -
  have "0 \<le> (\<Sum>x\<leftarrow>xs. (x - mean_of xs)\<^sup>2)"
    by (rule sum_list_nonneg) auto
  then have "0 \<le> (\<Sum>x\<leftarrow>xs. (x - mean_of xs)\<^sup>2) / real (length xs)"
    by (rule divide_nonneg_nonneg) simp
  then have "\<not> (\<Sum>x\<leftarrow>xs. (x - mean_of xs)\<^sup>2) / real (length xs) < 0"
    by (simp add: not_less)
  then show ?thesis
    using assms by (simp add: score_deviation_def score_variance_Num population_sd_def)
qed

lemma consistencyScore_Num:
  assumes "xs \<noteq> []"
  shows "consistencyScore (map Num xs) = Num (max 0 (1 - population_sd xs / 2.5))"
  using assms by (simp add: consistencyScore_def score_deviation_Num)

lemma score_consistency_Num:
  assumes "xs \<noteq> []"
  shows "analysis_consistency (calculateScoreConsistency (map Num xs) scoreName)
           = Num (round_dec 3 (max 0 (1 - population_sd xs / 2.5)))"
    and "standardDeviation (analysis_statistics (calculateScoreConsistency (map Num xs) scoreName))
           = Num (round_dec 3 (population_sd xs))"
  using assms
  by (simp_all add: calculateScoreConsistency_def Let_def consistencyScore_Num score_deviation_Num)

lemma variance_fold:
  "foldl (variance_step results) (tv, vc) keys =
     (foldl (\<lambda>sum val. sum + val) tv
        (map (\<lambda>k. score_variance (key_values results k))
           (filter (\<lambda>k. 2 \<le> length (key_values results k)) keys)),
      vc + length (filter (\<lambda>k. 2 \<le> length (key_values results k)) keys))"
  by (induction keys arbitrary: tv vc)
     (simp_all add: variance_step_def Let_def score_variance_def score_mean_def)

lemma orchestrator_consistency_dimensions:
  assumes "2 \<le> length results"
  shows "orchestrator_validateConsistency results =
     (let dimensions = filter (\<lambda>k. 2 \<le> length (key_values results k)) (scoreKeys results);
          variances = map (\<lambda>k. score_variance (key_values results k)) dimensions
      in if dimensions = [] then Num 1
         else Math_max (Num 0)
                (Num 1 - reduce_sum variances / Num (real (length dimensions)) / Num 2))"
  using assms
  by (simp add: orchestrator_validateConsistency_def variance_fold reduce_sum_def Let_def)

lemma set_foldl_add_key: "set (foldl add_key keys ks) = set keys \<union> set ks"
  by (induction ks arbitrary: keys) (auto simp: add_key_def)

lemma set_extractScoreKeys_from:
  "set (foldl (\<lambda>keys result. if success result then foldl add_key keys (map fst (scores result))
                                else keys) ks results)
     = set ks \<union> (\<Union>r\<in>{r \<in> set results. success r}. fst ` set (scores r))"
  by (induction results arbitrary: ks) (auto simp: set_foldl_add_key)

lemma values_have_key:
  assumes "extractScoreValues results key \<noteq> []"
  shows "key \<in> set (extractScoreKeys results)"
proof -
  from assms obtain r where r: "r \<in> set results" "success r" "map_of (scores r) key \<noteq> None"
    by (auto simp: extractScoreValues_def filter_empty_conv)
  then have "key \<in> fst ` set (scores r)" by (simp add: map_of_eq_None_iff)
  then show ?thesis using r
    unfolding extractScoreKeys_def set_extractScoreKeys_from by auto
qed

lemma map_of_entries:
  "map_of (concat (map (\<lambda>k. if P k then [(k, g k)] else []) keys)) key
     = (if key \<in> set keys \<and> P key then Some (g key) else None)"
  by (induction keys) auto

lemma scorewise_entry:
  assumes "2 \<le> length (extractScoreValues results key)"
  shows "map_of (analyzeScorewiseConsistency results) key
           = Some (calculateScoreConsistency (extractScoreValues results key) key)"
proof -
  have "extractScoreValues results key \<noteq> []" using assms by auto
  then have "key \<in> set (extractScoreKeys results)" by (rule values_have_key)
  then show ?thesis
    using assms unfolding analyzeScorewiseConsistency_def Let_def map_of_entries by simp
qed

lemma values_need_successes:
  "length (extractScoreValues results key) \<le> length (filter success results)"
proof -
  have "length (extractScoreValues results key)
          \<le> length (filter (\<lambda>r. success r \<and> map_of (scores r) key \<noteq> None) results)"
    unfolding extractScoreValues_def length_map
    by (rule order_trans[OF length_filter_le]) simp
  also have "\<dots> \<le> length (filter success results)"
    by (induction results) auto
  finally show ?thesis .
qed

lemma extract_of_successful:
  "extractScoreValues (filter success results) key = extractScoreValues results key"
  unfolding extractScoreValues_def by (simp add: conj_commute conj_left_commute cong: conj_cong)

section \<open>Facts about the dispatch\<close>

lemma success_evaluate_provider: "success (evaluate_provider p) = succeeds p"
  by (simp add: evaluate_provider_def succeeds_def split: provider_outcome.splits)

lemma successful_results:
  "filter success (map evaluate_provider ps) = map evaluate_provider (filter succeeds ps)"
  by (simp add: filter_map comp_def success_evaluate_provider)

lemma failed_provider_entry:
  "\<not> succeeds p \<Longrightarrow>
     name (evaluate_provider p) = getName p \<and> \<not> success (evaluate_provider p)
     \<and> scores (evaluate_provider p) = []
     \<and> error (evaluate_provider p)
          = Some (case outcome p of Rejected_Error message \<Rightarrow> message | _ \<Rightarrow> ''unknown error'')"
  by (simp add: evaluate_provider_def succeeds_def split: provider_outcome.splits)

lemma dispatch_result:
  "executeParallelEvaluations ps =
     (if filter succeeds ps = [] then Inl All_providers_failed
      else Inr (map evaluate_provider ps))"
  by (simp add: executeParallelEvaluations_def Let_def successful_results)

lemma evaluateChat_result:
  "evaluateChat thresholds request ps =
     (if ps = [] then Inl No_provider_available
      else if filter succeeds ps = [] then Inl All_providers_failed
      else consolidateResults thresholds request (map evaluate_provider ps))"
  by (simp add: evaluateChat_def dispatch_result)

lemma consolidateResults_of_successes:
  assumes "filter success rs \<noteq> []"
  shows "\<exists>r r'. consolidateResults thresholds request rs = Inr r
           \<and> consolidateResults thresholds request (filter success rs) = Inr r'
           \<and> provider_results r = rs \<and> provider_results r' = filter success rs
           \<and> final_scores r' = final_scores r \<and> validation r' = validation r
           \<and> evidence r' = evidence r \<and> metadata r' = metadata r"
  using assms by (simp add: consolidateResults_def Let_def consolidateEvidence_def)

lemma consolidateResults_validation:
  assumes "consolidateResults thresholds request rs = Inr r"
  shows "filter success rs \<noteq> []"
    and "validation_consistency (validation r)
           = orchestrator_validateConsistency (filter success rs)"
    and "validation_outliers (validation r)
           = orchestrator_detectOutliers thresholds (filter success rs)"
    and "validation_confidence (validation r)
           = orchestrator_calculateConfidence thresholds (validation_consistency (validation r))
               (Num (real (length (validation_outliers (validation r)))))
               (Num (real (length (filter success rs))))"
    and "validation_reliability (validation r)
           = determineReliability (validation_confidence (validation r))
               (validation_consistency (validation r))"
  using assms by (auto simp: consolidateResults_def Let_def split: if_splits)

lemma evaluateChat_consolidates:
  assumes "evaluateChat thresholds request ps = Inr r"
  shows "consolidateResults thresholds request (map evaluate_provider ps) = Inr r"
  using assms by (simp add: evaluateChat_result split: if_splits)

section \<open>The end-to-end example of the specification\<close>

lemma example_provider_results: "map evaluate_provider example_providers = example_results"
  by (simp add: example_providers_def example_results_def judge_def total_only_def
      evaluate_provider_def extractScores_def score_entry_def truthy_def or_default_def)

lemma example_all_successful: "filter success example_results = example_results"
  by (simp add: example_results_def total_only_def)

lemma example_consolidated_total:
  "consolidateScores example_results ''total_score'' = Some (Num (103 / 30))"
  by (simp add: consolidateScores_def key_values_def example_results_def total_only_def
      is_number_def isNaN_def Array_sort_def by_difference_def consolidateValues_def Let_def
      reduce_sum_def)

lemma example_orchestrator_outliers:
  "orchestrator_detectOutliers (thresholds\<lparr>outlier_detection := default_detection\<rparr>)
     example_results = []"
  by (simp add: orchestrator_detectOutliers_def example_results_def total_only_def is_number_def
      isNaN_def or_else_def truthy_def Array_sort_def by_difference_def default_detection_def
      Let_def enumerate_eq_zip)

lemma example_detector:
  "detectOutliers default_detection example_totals =
     \<lparr>outliers = [], outlierIndices = [],
      statistics = \<lparr>q1 = Num 2.85, q3 = Num 4.55, iqr = Num 1.7, lowerBound = Num 0.3,
                    upperBound = Num 7.1, outlierCount_stat = 0, outlierPercentage = Num 0\<rparr>,
      filteredValues = example_totals\<rparr>"
  by (simp add: detectOutliers_unfold default_detection_def example_totals_def Array_sort_def
      by_difference_def detect_sorted_fields calculateQuartile_def js_index_def ceiling_def
      Let_def outside_def)

text \<open>
  Claim C1, as stated, fails: on the total scores 4.6, 4.5 and 1.2 with the multiplier 1.5
  neither the detector nor the orchestrator's own detection flags 1.2, and the consolidated
  total score is not 4.55.
\<close>

theorem example_flags_nothing_counterexample:
  "Num 1.2 \<notin> set (outliers (detectOutliers default_detection example_totals))
   \<and> orchestrator_detectOutliers example_thresholds example_results = []
   \<and> consolidateScores example_results ''total_score'' \<noteq> Some (Num 4.55)"
proof -
  have "example_thresholds = example_thresholds\<lparr>outlier_detection := default_detection\<rparr>"
    by (simp add: example_thresholds_def)
  then have "orchestrator_detectOutliers example_thresholds example_results = []"
    using example_orchestrator_outliers[of example_thresholds] by simp
  then show ?thesis
    by (simp add: example_detector example_consolidated_total)
qed

text \<open>
  Claim C1, amended. With the total scores 4.6, 4.5 and 1.2 and the multiplier 1.5 no score
  is flagged: the detector's bounds are 0.3 and 7.1 (quartiles 2.85 and 4.55), and the
  orchestrator's detection returns no index. The consolidated total score is the mean of
  all three scores, 103/30, and this is the total the evaluation returns.
\<close>

theorem example_consolidates_all_three:
  "outliers (detectOutliers default_detection example_totals) = []
   \<and> lowerBound (statistics (detectOutliers default_detection example_totals)) = Num 0.3
   \<and> upperBound (statistics (detectOutliers default_detection example_totals)) = Num 7.1
   \<and> orchestrator_detectOutliers (thresholds\<lparr>outlier_detection := default_detection\<rparr>)
        example_results = []
   \<and> consolidateScores example_results ''total_score''
        = Some ((Num 4.6 + Num 4.5 + Num 1.2) / Num 3)
   \<and> (\<exists>r. evaluateChat (thresholds\<lparr>outlier_detection := default_detection\<rparr>) request
              example_providers = Inr r
          \<and> chongjeom (final_scores r) = Num (103 / 30)
          \<and> validation_outliers (validation r) = [])"
proof -
  have n: "length example_providers \<noteq> 0" "length example_results \<noteq> 0"
    by (simp_all add: example_providers_def example_results_def)
  have pipeline: "\<exists>r. evaluateChat (thresholds\<lparr>outlier_detection := default_detection\<rparr>) request
              example_providers = Inr r
          \<and> chongjeom (final_scores r) = Num (103 / 30)
          \<and> validation_outliers (validation r) = []"
    using n
    by (simp add: evaluateChat_def executeParallelEvaluations_def example_provider_results
        example_all_successful consolidateResults_def Let_def example_consolidated_total
        example_orchestrator_outliers or_default_def truthy_def)
  show ?thesis
    using pipeline
    by (simp add: example_detector example_consolidated_total example_orchestrator_outliers)
qed

section \<open>The consistency of one dimension\<close>

lemma two_results_values: "extractScoreValues two_results ''total_score'' = map Num [2, 4]"
  by (simp add: extractScoreValues_def two_results_def total_only_def is_number_def isNaN_def)

lemma two_results_deviation: "population_sd [2, 4] = 1"
  by (simp add: population_sd_def mean_of_def)

lemma close_results_deviation: "population_sd [2, 3] = 1 / 2"
proof -
  have "sqrt (1 / 4) = 1 / 2" by (rule real_sqrt_unique) (simp_all add: power2_eq_square)
  then show ?thesis by (simp add: population_sd_def mean_of_def power2_eq_square)
qed

lemma close_results_consistency: "orchestrator_validateConsistency close_results = Num (7 / 8)"
  by (simp add: orchestrator_validateConsistency_def close_results_def total_only_def
      scoreKeys_def add_key_def variance_step_def key_values_def is_number_def isNaN_def
      reduce_sum_def Let_def power2_eq_square)

text \<open>
  Claim C2, as stated, fails. For two successful providers with the total scores 2 and 4 the
  standard deviation is 1, and the consistency the consistency validator reports for the
  dimension is 0.6, not \<open>max(0, 1 - 1 / 2.0) = 0.5\<close>. For the total scores 2 and 3 the
  standard deviation is 0.5, and the consistency the orchestrator computes is 0.875, not
  \<open>max(0, 1 - 0.5 / 2.0) = 0.75\<close>.
\<close>

theorem dimension_consistency_counterexample:
  "(\<exists>a. map_of (scorewise (validateConsistency example_consistency two_results)) ''total_score''
          = Some a
       \<and> standardDeviation (analysis_statistics a) = Num 1
       \<and> analysis_consistency a = Num 0.6
       \<and> analysis_consistency a \<noteq> Num (max 0 (1 - 1 / 2.0)))
   \<and> population_sd [2, 3] = 0.5
   \<and> orchestrator_validateConsistency close_results = Num 0.875
   \<and> orchestrator_validateConsistency close_results \<noteq> Num (max 0 (1 - 0.5 / 2.0))"
proof -
  have s: "filter success two_results = two_results"
    by (simp add: two_results_def total_only_def)
  have e: "map_of (analyzeScorewiseConsistency two_results) ''total_score''
             = Some (calculateScoreConsistency (map Num [2, 4]) ''total_score'')"
    using scorewise_entry[of two_results "''total_score''"] by (simp add: two_results_values)
  have r: "round_dec 3 1 = 1" "round_dec 3 (3 / 5) = 3 / 5"
    by (simp_all add: round_dec_def)
  have "length two_results = 2" by (simp add: two_results_def)
  then have "scorewise (validateConsistency example_consistency two_results)
               = analyzeScorewiseConsistency two_results"
    by (simp add: validateConsistency_def Let_def s)
  then have v: "\<exists>a. map_of (scorewise (validateConsistency example_consistency two_results))
              ''total_score'' = Some a
       \<and> standardDeviation (analysis_statistics a) = Num 1
       \<and> analysis_consistency a = Num 0.6
       \<and> analysis_consistency a \<noteq> Num (max 0 (1 - 1 / 2.0))"
    using score_consistency_Num[of "[2, 4]" "''total_score''"]
    by (simp add: e two_results_deviation r)
  have o: "population_sd [2, 3] = 0.5
           \<and> orchestrator_validateConsistency close_results = Num 0.875
           \<and> orchestrator_validateConsistency close_results \<noteq> Num (max 0 (1 - 0.5 / 2.0))"
    by (simp add: close_results_deviation close_results_consistency)
  show ?thesis using v o by blast
qed

text \<open>
  Claim C2, amended. For every dimension with at least 2 numeric values across the successful
  providers, the consistency that the consistency validator reports for the dimension is
  \<open>max(0, 1 - stddev / 2.5)\<close> as the program computes it, printed with three decimals and
  read back; \<open>stddev\<close> is the square root of the mean squared deviation of the values from
  their mean. When the values are finite and lie between 0 and 5, the reported consistency
  lies between 0 and 1 and differs by less than 0.001 from \<open>max(0, 1 - s / 2.5)\<close>, \<open>s\<close>
  being the population standard deviation of the values. The orchestrator computes no
  consistency per dimension: for two or more results its consistency is 1 when no dimension
  has 2 numeric values, and otherwise \<open>max(0, 1 - v / 2)\<close>, \<open>v\<close> being the mean, over the
  dimensions with at least 2 numeric values, of the mean squared deviation of the
  dimension's values from their mean.
\<close>

theorem dimension_consistency_divides_deviation_by_2_5:
  assumes "2 \<le> length (extractScoreValues results key)"
  shows "(let sample = extractScoreValues results key;
              n = Num (real (length sample))
          in score_deviation sample
               = Math_sqrt (foldl (\<lambda>sum val. sum + Math_pow2 (val - reduce_sum sample / n))
                              (Num 0) sample / n)
             \<and> (\<exists>a. map_of (scorewise (validateConsistency config results)) key = Some a
                   \<and> analysis_consistency a
                       = toFixed 3 (Math_max (Num 0) (Num 1 - score_deviation sample / Num 2.5))
                   \<and> (\<forall>xs. sample = map Num xs \<and> (\<forall>x \<in> set xs. 0 \<le> x \<and> x \<le> 5) \<longrightarrow>
                          (\<exists>c. analysis_consistency a = Num c \<and> 0 \<le> c \<and> c \<le> 1
                              \<and> \<bar>c - max 0 (1 - population_sd xs / 2.5)\<bar> < 0.001))))
         \<and> (2 \<le> length successes \<longrightarrow>
               orchestrator_validateConsistency successes
                 = (let dimensions = filter (\<lambda>k. 2 \<le> length (key_values successes k))
                                       (scoreKeys successes);
                        variances = map (\<lambda>k. score_variance (key_values successes k)) dimensions
                    in if dimensions = [] then Num 1
                       else Math_max (Num 0)
                              (Num 1 - reduce_sum variances / Num (real (length dimensions))
                                         / Num 2)))"
proof -
  define sample where "sample = extractScoreValues results key"
  have two: "2 \<le> length sample" using assms by (simp add: sample_def)
  then have succ: "2 \<le> length (filter success results)"
    using values_need_successes[of results key] by (simp add: sample_def)
  have "length (filter success results) \<le> length results" by (rule length_filter_le)
  with succ have all: "2 \<le> length results" by (rule order_trans)
  have sw: "scorewise (validateConsistency config results)
          = analyzeScorewiseConsistency (filter success results)"
    using all succ by (simp add: validateConsistency_def Let_def)
  have entry: "map_of (scorewise (validateConsistency config results)) key
          = Some (calculateScoreConsistency sample key)"
    unfolding sw sample_def
    using scorewise_entry[of "filter success results" key] assms
    by (simp add: extract_of_successful)
  have reported: "analysis_consistency (calculateScoreConsistency sample key)
          = toFixed 3 (Math_max (Num 0) (Num 1 - score_deviation sample / Num 2.5))"
    by (simp add: calculateScoreConsistency_def Let_def consistencyScore_def)
  have dev: "score_deviation sample
               = Math_sqrt (foldl (\<lambda>sum val. sum + Math_pow2
                                      (val - reduce_sum sample / Num (real (length sample))))
                              (Num 0) sample / Num (real (length sample)))"
    by (simp add: score_deviation_def score_variance_def score_mean_def)
  have near: "\<exists>c. analysis_consistency (calculateScoreConsistency sample key) = Num c
                 \<and> 0 \<le> c \<and> c \<le> 1 \<and> \<bar>c - max 0 (1 - population_sd xs / 2.5)\<bar> < 0.001"
    if "sample = map Num xs \<and> (\<forall>x \<in> set xs. 0 \<le> x \<and> x \<le> 5)" for xs
  proof -
    have ne: "xs \<noteq> []" using two that by auto
    define x where "x = max 0 (1 - population_sd xs / 2.5)"
    have "0 \<le> (\<Sum>x\<leftarrow>xs. (x - mean_of xs)\<^sup>2)"
      by (rule sum_list_nonneg) auto
    then have "0 \<le> (\<Sum>x\<leftarrow>xs. (x - mean_of xs)\<^sup>2) / real (length xs)"
      by (rule divide_nonneg_nonneg) simp
    then have "0 \<le> population_sd xs" by (simp add: population_sd_def)
    then have unit: "0 \<le> x" "x \<le> 1" by (simp_all add: x_def)
    have c: "analysis_consistency (calculateScoreConsistency sample key) = Num (round_dec 3 x)"
      using that score_consistency_Num(1)[OF ne, of key] by (simp add: x_def)
    have "\<bar>round_dec 3 x - x\<bar> < 0.001"
      using round_dec_close[OF unit] by simp
    then show ?thesis
      using c round_dec_unit[OF unit, of 3] unfolding x_def by blast
  qed
  have validator: "let sample = extractScoreValues results key;
              n = Num (real (length sample))
          in score_deviation sample
               = Math_sqrt (foldl (\<lambda>sum val. sum + Math_pow2 (val - reduce_sum sample / n))
                              (Num 0) sample / n)
             \<and> (\<exists>a. map_of (scorewise (validateConsistency config results)) key = Some a
                   \<and> analysis_consistency a
                       = toFixed 3 (Math_max (Num 0) (Num 1 - score_deviation sample / Num 2.5))
                   \<and> (\<forall>xs. sample = map Num xs \<and> (\<forall>x \<in> set xs. 0 \<le> x \<and> x \<le> 5) \<longrightarrow>
                          (\<exists>c. analysis_consistency a = Num c \<and> 0 \<le> c \<and> c \<le> 1
                              \<and> \<bar>c - max 0 (1 - population_sd xs / 2.5)\<bar> < 0.001)))"
    unfolding Let_def sample_def[symmetric]
    using dev entry reported near by blast
  have orchestrator: "orchestrator_validateConsistency successes
                 = (let dimensions = filter (\<lambda>k. 2 \<le> length (key_values successes k))
                                       (scoreKeys successes);
                        variances = map (\<lambda>k. score_variance (key_values successes k)) dimensions
                    in if dimensions = [] then Num 1
                       else Math_max (Num 0)
                              (Num 1 - reduce_sum variances / Num (real (length dimensions))
                                         / Num 2))"
    if "2 \<le> length successes"
    using that by (rule orchestrator_consistency_dimensions)
  show ?thesis using validator orchestrator by blast
qed

theorem dimension_consistency_divides_deviation_by_2_5_witness:
  "(2 :: nat) \<le> length (extractScoreValues two_results ''total_score'')
   \<and> extractScoreValues two_results ''total_score'' = map Num [2, 4]
   \<and> (0 :: real) \<le> 2 \<and> (2 :: real) \<le> 5 \<and> (0 :: real) \<le> 4 \<and> (4 :: real) \<le> 5
   \<and> score_deviation (map Num [2, 4]) = Num 1
   \<and> (\<exists>a. map_of (scorewise (validateConsistency example_consistency two_results)) ''total_score''
             = Some a
          \<and> analysis_consistency a = Num 0.6
          \<and> (\<exists>c. analysis_consistency a = Num c \<and> 0 \<le> c \<and> c \<le> 1
                 \<and> \<bar>c - max 0 (1 - population_sd [2, 4] / 2.5)\<bar> < 0.001))
   \<and> (2 :: nat) \<le> length close_results
   \<and> orchestrator_validateConsistency close_results = Num 0.875"
proof -
  have l: "(2 :: nat) \<le> length (extractScoreValues two_results ''total_score'')"
    by (simp add: two_results_values)
  have range: "\<forall>x \<in> set [2, 4 :: real]. 0 \<le> x \<and> x \<le> 5" by simp
  have c: "(2 :: nat) \<le> length close_results" by (simp add: close_results_def)
  note inst = dimension_consistency_divides_deviation_by_2_5[OF l,
      where config = example_consistency and successes = close_results,
      unfolded Let_def two_results_values]
  have d: "score_deviation (map Num [2, 4]) = Num 1"
    using inst[THEN conjunct1, THEN conjunct1]
    by (simp add: reduce_sum_def power2_eq_square)
  obtain a where a: "map_of (scorewise (validateConsistency example_consistency two_results))
                       ''total_score'' = Some a"
      "analysis_consistency a
         = toFixed 3 (Math_max (Num 0) (Num 1 - score_deviation (map Num [2, 4]) / Num 2.5))"
      "\<forall>xs. map Num [2, 4] = map Num xs \<and> (\<forall>x \<in> set xs. 0 \<le> x \<and> x \<le> 5) \<longrightarrow>
          (\<exists>c. analysis_consistency a = Num c \<and> 0 \<le> c \<and> c \<le> 1
              \<and> \<bar>c - max 0 (1 - population_sd xs / 2.5)\<bar> < 0.001)"
    using inst[THEN conjunct1, THEN conjunct2] by blast
  have n: "\<exists>c. analysis_consistency a = Num c \<and> 0 \<le> c \<and> c \<le> 1
              \<and> \<bar>c - max 0 (1 - population_sd [2, 4] / 2.5)\<bar> < 0.001"
    using a(3)[THEN spec, of "[2, 4]"] range by blast
  have r: "round_dec 3 (3 / 5) = 3 / 5" by (simp add: round_dec_def)
  have v: "analysis_consistency a = Num 0.6"
    unfolding a(2) d by (simp add: r)
  have dims: "filter (\<lambda>k. 2 \<le> length (key_values close_results k)) (scoreKeys close_results)
                = [''total_score'']"
    by (simp add: close_results_def total_only_def scoreKeys_def add_key_def key_values_def
        is_number_def isNaN_def)
  have var: "score_variance (key_values close_results ''total_score'') = Num (1 / 4)"
    by (simp add: close_results_def total_only_def key_values_def is_number_def isNaN_def
        score_variance_def score_mean_def reduce_sum_def power2_eq_square)
  have o: "orchestrator_validateConsistency close_results = Num 0.875"
    using inst[THEN conjunct2, THEN mp, OF c]
    by (simp add: dims var reduce_sum_def)
  have "\<exists>a. map_of (scorewise (validateConsistency example_consistency two_results))
               ''total_score'' = Some a
          \<and> analysis_consistency a = Num 0.6
          \<and> (\<exists>c. analysis_consistency a = Num c \<and> 0 \<le> c \<and> c \<le> 1
                 \<and> \<bar>c - max 0 (1 - population_sd [2, 4] / 2.5)\<bar> < 0.001)"
    using a(1) v n by blast
  then show ?thesis using l two_results_values d c o by simp
qed

section \<open>The quartiles and bounds of the two detections\<close>

lemma skewed_total_scores: "total_scores skewed_results = map Num [1, 2, 3, 10]"
  by (simp add: total_scores_def skewed_results_def total_only_def or_else_def truthy_def
      is_number_def isNaN_def)

lemma spread_total_scores:
  "total_scores (map (total_only ''p'') [Num 100, Num 2, Num 1, Num 2, Num 2])
     = map Num [100, 2, 1, 2, 2]"
  by (simp add: total_scores_def total_only_def or_else_def truthy_def is_number_def isNaN_def)

text \<open>
  Claim C3, as stated, fails for the orchestrator's own detection. On the total scores 1, 2, 3
  and 10 with the multiplier 1.5, interpolation at the rank positions 0.75 and 2.25 gives the
  quartiles 1.75 and 4.75 and the upper bound 9.25, so the rule of the claim classifies 10 as
  an outlier, as the outlier detector does; the orchestrator's detection returns no outlier.
\<close>

theorem orchestrator_index_quartiles_counterexample:
  "quartile_by_interpolation [1, 2, 3, 10] 0.25 = 1.75
   \<and> quartile_by_interpolation [1, 2, 3, 10] 0.75 = 4.75
   \<and> 4.75 + 1.5 * (4.75 - 1.75) < (10 :: real)
   \<and> outliers (detectOutliers default_detection (map Num [1, 2, 3, 10])) = [Num 10]
   \<and> total_scores skewed_results = map Num [1, 2, 3, 10]
   \<and> orchestrator_detectOutliers example_thresholds skewed_results = []"
proof -
  have q: "quartile_by_interpolation [1, 2, 3, 10] 0.25 = 1.75"
          "quartile_by_interpolation [1, 2, 3, 10] 0.75 = 4.75"
    by (simp_all add: quartile_by_interpolation_def interpolate_rank_def)
  have d: "outliers (detectOutliers default_detection (map Num [1, 2, 3, 10])) = [Num 10]"
    by (simp add: detectOutliers_unfold default_detection_def Array_sort_def by_difference_def
        detect_sorted_fields calculateQuartile_def js_index_def ceiling_def Let_def outside_def)
  have three: "3 \<le> length [1, 2, 3, 10 :: real]" by simp
  have o: "orchestrator_detectOutliers example_thresholds skewed_results = []"
    unfolding orchestrator_detectOutliers_positions[OF skewed_total_scores three]
    by (simp add: Let_def example_thresholds_def default_detection_def outside_def)
  show ?thesis using q d o skewed_total_scores by simp
qed

text \<open>
  Claim C3, amended. On a sample of finite values that is not empty and has at least
  \<open>min_samples\<close> values, the outlier detector sorts a copy of the values and takes \<open>Q1\<close> and
  \<open>Q3\<close> by linear interpolation at the rank positions \<open>(n - 1) * 0.25\<close> and \<open>(n - 1) * 0.75\<close>
  of the ascending sample; the \<open>IQR\<close> it reports is \<open>Q3 - Q1\<close> and the bounds it reports are
  \<open>Q1 - k * IQR\<close> and \<open>Q3 + k * IQR\<close>, \<open>k\<close> being the configured multiplier, all in the
  program's arithmetic; and it returns as outliers exactly the values below the reported
  lower bound or above the reported upper bound, with their positions, and all other values
  as filtered values. The orchestrator's own detection, on three or more finite total scores,
  takes as quartiles the values of the ascending sample at the indices \<open>floor(n * 0.25)\<close> and
  \<open>floor(n * 0.75)\<close>, forms the bounds in the same way, and returns the positions in the
  ascending sample of the total scores outside these bounds.
\<close>

theorem detections_apply_iqr_rule_to_their_quartiles:
  assumes "xs \<noteq> []" and "min_samples config \<le> Num (real (length xs))"
  shows "(let sample = map Num xs;
              ascending = map Num (sort xs);
              r = detectOutliers config sample;
              st = statistics r
          in q1 st = interpolate_position ascending ((real (length xs) - 1) * 0.25)
             \<and> q3 st = interpolate_position ascending ((real (length xs) - 1) * 0.75)
             \<and> iqr st = q3 st - q1 st
             \<and> lowerBound st = q1 st - multiplier config * iqr st
             \<and> upperBound st = q3 st + multiplier config * iqr st
             \<and> outliers r = filter (\<lambda>v. v < lowerBound st \<or> upperBound st < v) sample
             \<and> outlierIndices r
                 = filter (\<lambda>i. sample ! i < lowerBound st \<or> upperBound st < sample ! i)
                     [0..<length sample]
             \<and> filteredValues r
                 = filter (\<lambda>v. \<not> (v < lowerBound st \<or> upperBound st < v)) sample)
         \<and> (total_scores results = map Num ys \<and> 3 \<le> length ys \<longrightarrow>
              orchestrator_detectOutliers thresholds results =
                (let ascending = map Num (sort ys);
                     n = length ys;
                     first = ascending ! (n div 4);
                     third = ascending ! ((3 * n) div 4);
                     spread = third - first;
                     k = multiplier (outlier_detection thresholds);
                     lo = first - k * spread;
                     hi = third + k * spread
                 in filter (\<lambda>i. ascending ! i < lo \<or> hi < ascending ! i) [0..<n]))"
proof -
  have s: "map Num (sort xs) \<noteq> []" using assms(1) by (metis length_sort length_0_conv map_is_Nil_conv)
  have len: "length (map Num (sort xs)) = length xs" by simp
  have q: "calculateQuartile (map Num (sort xs)) (1 / 4)
             = interpolate_position (map Num (sort xs)) ((real (length xs) - 1) * (1 / 4))"
          "calculateQuartile (map Num (sort xs)) (3 / 4)
             = interpolate_position (map Num (sort xs)) ((real (length xs) - 1) * (3 / 4))"
    using calculateQuartile_interpolates[OF s, of "1 / 4"]
      calculateQuartile_interpolates[OF s, of "3 / 4"]
    unfolding len by simp_all
  have enough: "\<not> Num (real (length xs)) < min_samples config"
    using assms(2) by (cases "min_samples config") auto
  have r: "detectOutliers config (map Num xs)
             = detect_sorted config (map Num xs) (map Num (sort xs))"
    using enough by (simp add: detectOutliers_unfold Array_sort_Num)
  have detector: "let sample = map Num xs;
              ascending = map Num (sort xs);
              r = detectOutliers config sample;
              st = statistics r
          in q1 st = interpolate_position ascending ((real (length xs) - 1) * 0.25)
             \<and> q3 st = interpolate_position ascending ((real (length xs) - 1) * 0.75)
             \<and> iqr st = q3 st - q1 st
             \<and> lowerBound st = q1 st - multiplier config * iqr st
             \<and> upperBound st = q3 st + multiplier config * iqr st
             \<and> outliers r = filter (\<lambda>v. v < lowerBound st \<or> upperBound st < v) sample
             \<and> outlierIndices r
                 = filter (\<lambda>i. sample ! i < lowerBound st \<or> upperBound st < sample ! i)
                     [0..<length sample]
             \<and> filteredValues r
                 = filter (\<lambda>v. \<not> (v < lowerBound st \<or> upperBound st < v)) sample"
    unfolding r detect_sorted_fields Let_def
    using q by (simp add: outside_fun)
  have orchestrator: "orchestrator_detectOutliers thresholds results =
                (let ascending = map Num (sort ys);
                     n = length ys;
                     first = ascending ! (n div 4);
                     third = ascending ! ((3 * n) div 4);
                     spread = third - first;
                     k = multiplier (outlier_detection thresholds);
                     lo = first - k * spread;
                     hi = third + k * spread
                 in filter (\<lambda>i. ascending ! i < lo \<or> hi < ascending ! i) [0..<n])"
    if "total_scores results = map Num ys \<and> 3 \<le> length ys"
    using that orchestrator_detectOutliers_positions[of results ys thresholds]
    by (simp add: outside_def)
  show ?thesis using detector orchestrator by blast
qed

theorem detections_apply_iqr_rule_to_their_quartiles_witness:
  "[10, 2, 4, 3, 5 :: real] \<noteq> []
   \<and> min_samples default_detection \<le> Num (real (length [10, 2, 4, 3, 5 :: real]))
   \<and> q1 (statistics (detectOutliers default_detection (map Num [10, 2, 4, 3, 5]))) = Num 3
   \<and> q3 (statistics (detectOutliers default_detection (map Num [10, 2, 4, 3, 5]))) = Num 5
   \<and> lowerBound (statistics (detectOutliers default_detection (map Num [10, 2, 4, 3, 5]))) = Num 0
   \<and> upperBound (statistics (detectOutliers default_detection (map Num [10, 2, 4, 3, 5]))) = Num 8
   \<and> outliers (detectOutliers default_detection (map Num [10, 2, 4, 3, 5])) = [Num 10]
   \<and> outlierIndices (detectOutliers default_detection (map Num [10, 2, 4, 3, 5])) = [0]
   \<and> filteredValues (detectOutliers default_detection (map Num [10, 2, 4, 3, 5]))
        = [Num 2, Num 4, Num 3, Num 5]
   \<and> total_scores (map (total_only ''p'') [Num 100, Num 2, Num 1, Num 2, Num 2])
        = map Num [100, 2, 1, 2, 2]
   \<and> (3 :: nat) \<le> length [100, 2, 1, 2, 2 :: real]
   \<and> orchestrator_detectOutliers example_thresholds
        (map (total_only ''p'') [Num 100, Num 2, Num 1, Num 2, Num 2]) = [0, 4]"
proof -
  have ne: "[10, 2, 4, 3, 5 :: real] \<noteq> []" by simp
  have enough: "min_samples default_detection \<le> Num (real (length [10, 2, 4, 3, 5 :: real]))"
    by (simp add: default_detection_def)
  have three: "(3 :: nat) \<le> length [100, 2, 1, 2, 2 :: real]" by simp
  note inst = detections_apply_iqr_rule_to_their_quartiles[OF ne enough,
      where results = "map (total_only ''p'') [Num 100, Num 2, Num 1, Num 2, Num 2]"
        and ys = "[100, 2, 1, 2, 2]" and thresholds = example_thresholds, unfolded Let_def]
  note d = inst[THEN conjunct1]
  have m: "multiplier default_detection = Num (3 / 2)" by (simp add: default_detection_def)
  have q: "q1 (statistics (detectOutliers default_detection (map Num [10, 2, 4, 3, 5]))) = Num 3"
          "q3 (statistics (detectOutliers default_detection (map Num [10, 2, 4, 3, 5]))) = Num 5"
    using d[THEN conjunct1] d[THEN conjunct2, THEN conjunct1]
    by (simp_all add: interpolate_position_def)
  have i: "iqr (statistics (detectOutliers default_detection (map Num [10, 2, 4, 3, 5]))) = Num 2"
    using d[THEN conjunct2, THEN conjunct2, THEN conjunct1] by (simp add: q[simplified])
  have b: "lowerBound (statistics (detectOutliers default_detection (map Num [10, 2, 4, 3, 5]))) = Num 0"
          "upperBound (statistics (detectOutliers default_detection (map Num [10, 2, 4, 3, 5]))) = Num 8"
    using d[THEN conjunct2, THEN conjunct2, THEN conjunct2, THEN conjunct1]
      d[THEN conjunct2, THEN conjunct2, THEN conjunct2, THEN conjunct2, THEN conjunct1]
    by (simp_all add: q[simplified] i[simplified] m)
  note rest = d[THEN conjunct2, THEN conjunct2, THEN conjunct2, THEN conjunct2, THEN conjunct2]
  have o: "outliers (detectOutliers default_detection (map Num [10, 2, 4, 3, 5])) = [Num 10]"
    using rest[THEN conjunct1] by (simp add: b[simplified])
  have x: "outlierIndices (detectOutliers default_detection (map Num [10, 2, 4, 3, 5])) = [0]"
    using rest[THEN conjunct2, THEN conjunct1] by (simp add: b[simplified] upt_rec)
  have f: "filteredValues (detectOutliers default_detection (map Num [10, 2, 4, 3, 5]))
             = [Num 2, Num 4, Num 3, Num 5]"
    using rest[THEN conjunct2, THEN conjunct2] by (simp add: b[simplified])
  have p: "orchestrator_detectOutliers example_thresholds
          (map (total_only ''p'') [Num 100, Num 2, Num 1, Num 2, Num 2]) = [0, 4]"
    using inst[THEN conjunct2, THEN mp, OF conjI[OF spread_total_scores three]]
    by (simp add: example_thresholds_def default_detection_def upt_rec)
  show ?thesis using ne enough q b o x f spread_total_scores three p by blast
qed

section \<open>The fallback of the consolidation\<close>

text \<open>
  On finite scores the fallback is never taken: the first index quartile of a sorted sample
  of three or more finite values lies within the bounds, so the inliers are not empty.
\<close>

lemma finite_sample_has_inliers:
  assumes "3 \<le> length xs"
  shows "consolidation_inliers (Array_sort by_difference (map Num xs)) \<noteq> []"
proof
  assume empty: "consolidation_inliers (Array_sort by_difference (map Num xs)) = []"
  let ?vs = "Array_sort by_difference (map Num xs)"
  have srt: "sorted_wrt (\<le>) ?vs" by (rule sorted_Array_sort) auto
  have nan: "NaN \<notin> set ?vs" by (auto simp: set_Array_sort)
  have n3: "3 \<le> length ?vs" using assms by (simp add: length_Array_sort)
  have "length ?vs div 4 < length ?vs" using n3 by auto
  then have "?vs ! (length ?vs div 4) \<in> set ?vs" by (rule nth_mem)
  then have "?vs ! (length ?vs div 4) \<in> Num ` set xs" by (simp add: set_Array_sort)
  then have "?vs ! (length ?vs div 4) \<noteq> PInf \<and> ?vs ! (length ?vs div 4) \<noteq> NInf" by auto
  then show False using degenerate_quartiles[OF srt nan n3 empty] by blast
qed

text \<open>
  Claim C4. For a score with three or more numeric values of which the consolidation keeps
  no inlier, \<open>consolidateScores\<close> writes an entry for the score, the entry is the median of
  the sorted values, and it is not \<open>NaN\<close>. (The case arises only when both index quartiles
  are the same infinity, by \<open>finite_sample_has_inliers\<close>.)
\<close>

theorem consolidation_falls_back_to_median:
  assumes "3 \<le> length (key_values results key)"
    and "consolidation_inliers (Array_sort by_difference (key_values results key)) = []"
  shows "consolidateScores results key
           = Some (sample_median (Array_sort by_difference (key_values results key)))
         \<and> sample_median (Array_sort by_difference (key_values results key)) \<noteq> NaN"
proof -
  let ?vs = "Array_sort by_difference (key_values results key)"
  have srt: "sorted_wrt (\<le>) ?vs"
    by (simp add: sorted_Array_sort key_values_no_NaN)
  have nan: "NaN \<notin> set ?vs"
    by (simp add: set_Array_sort key_values_no_NaN)
  have n3: "3 \<le> length ?vs"
    using assms(1) by (simp add: length_Array_sort)
  have "consolidateScores results key = Some (?vs ! (length ?vs div 2))"
    using consolidateValues_three[OF n3] assms(2) by (simp add: consolidateScores_def)
  then show ?thesis
    using degenerate_sample[OF srt nan n3 assms(2)] by simp
qed

theorem consolidation_falls_back_to_median_witness:
  "3 \<le> length (key_values infinite_results ''total_score'')
   \<and> consolidation_inliers (Array_sort by_difference (key_values infinite_results ''total_score'')) = []
   \<and> consolidateScores infinite_results ''total_score'' = Some PInf"
proof -
  have kv: "key_values infinite_results ''total_score'' = [PInf, PInf, PInf]"
    by (simp add: key_values_def infinite_results_def total_only_def is_number_def isNaN_def)
  have srt: "Array_sort by_difference [PInf, PInf, PInf] = [PInf, PInf, PInf]"
    by (simp add: Array_sort_def by_difference_def)
  have enough: "3 \<le> length (key_values infinite_results ''total_score'')"
    by (simp add: kv)
  have none: "consolidation_inliers (Array_sort by_difference (key_values infinite_results ''total_score'')) = []"
    by (simp add: kv srt consolidation_inliers_def Let_def)
  have med: "sample_median [PInf, PInf, PInf] = PInf"
    by (simp add: sample_median_def)
  show ?thesis
    using consolidation_falls_back_to_median[OF enough none] enough none
    by (simp add: kv srt med)
qed

section \<open>Confidence and the number of outliers\<close>

text \<open>
  Claim C5. With the consistency, the number of results and the configuration held fixed,
  and an outlier weight that is not negative, a larger outlier count never gives a larger
  confidence: the confidence returned by \<open>calculateConfidence\<close> does not rise, and it falls
  or stays whenever the optional factors yield a number. The same holds for the
  orchestrator's own \<open>calculateConfidence\<close> on a positive number of results.
\<close>

theorem confidence_never_rises_with_outliers:
  assumes "factors config = finite_weights wc wo ws" and "0 \<le> wo" and "oc1 \<le> oc2"
  shows "\<not> confidence_returned (calculateConfidence config (Num c) (Num oc1) (Num t) af)
             < confidence_returned (calculateConfidence config (Num c) (Num oc2) (Num t) af)
         \<and> (calculateAdditionalFactors af \<noteq> NaN \<longrightarrow>
              confidence_returned (calculateConfidence config (Num c) (Num oc2) (Num t) af)
                \<le> confidence_returned (calculateConfidence config (Num c) (Num oc1) (Num t) af))
         \<and> (0 < t \<and> factors (confidence_thresholds thresholds) = factors config \<longrightarrow>
              orchestrator_calculateConfidence thresholds (Num c) (Num oc2) (Num t)
                \<le> orchestrator_calculateConfidence thresholds (Num c) (Num oc1) (Num t))"
proof (intro conjI impI)
  show "\<not> confidence_returned (calculateConfidence config (Num c) (Num oc1) (Num t) af)
             < confidence_returned (calculateConfidence config (Num c) (Num oc2) (Num t) af)"
    using assms by (rule returned_confidence_antimono(2))
next
  assume "calculateAdditionalFactors af \<noteq> NaN"
  with assms show "confidence_returned (calculateConfidence config (Num c) (Num oc2) (Num t) af)
                \<le> confidence_returned (calculateConfidence config (Num c) (Num oc1) (Num t) af)"
    by (rule returned_confidence_antimono(1))
next
  assume "0 < t \<and> factors (confidence_thresholds thresholds) = factors config"
  then have "factors (confidence_thresholds thresholds) = finite_weights wc wo ws" and "0 < t"
    using assms(1) by simp_all
  then show "orchestrator_calculateConfidence thresholds (Num c) (Num oc2) (Num t)
                \<le> orchestrator_calculateConfidence thresholds (Num c) (Num oc1) (Num t)"
    using assms(2,3) by (rule orchestrator_confidence_antimono)
qed

theorem confidence_never_rises_with_outliers_witness:
  "factors example_confidence = finite_weights 0.5 0.3 0.2
   \<and> (0 :: real) \<le> 0.3
   \<and> (0 :: real) \<le> 1
   \<and> confidence_returned (calculateConfidence example_confidence (Num 0.9) (Num 1) (Num 5) None)
        \<le> confidence_returned (calculateConfidence example_confidence (Num 0.9) (Num 0) (Num 5) None)
   \<and> confidence_returned (calculateConfidence example_confidence (Num 0.9) (Num 0) (Num 5) None)
        = Num 0.95
   \<and> confidence_returned (calculateConfidence example_confidence (Num 0.9) (Num 1) (Num 5) None)
        = Num 0.89"
proof -
  have w: "(0 :: real) \<le> 0.3" and o: "(0 :: real) \<le> 1" by simp_all
  have fall: "confidence_returned (calculateConfidence example_confidence (Num 0.9) (Num 1) (Num 5) None)
        \<le> confidence_returned (calculateConfidence example_confidence (Num 0.9) (Num 0) (Num 5) None)"
    using confidence_never_rises_with_outliers[OF example_weights w o, of "0.9" 5 None]
    by (simp add: no_additional_factors)
  have v0: "confidence_returned (calculateConfidence example_confidence (Num 0.9) (Num 0) (Num 5) None)
        = Num 0.95"
    by (simp add: calculateConfidence_def Let_def finalConfidence_cases[OF example_weights]
        no_additional_factors weighted_base_def log_sample_size_five round_dec_def)
  have v1: "confidence_returned (calculateConfidence example_confidence (Num 0.9) (Num 1) (Num 5) None)
        = Num 0.89"
    by (simp add: calculateConfidence_def Let_def finalConfidence_cases[OF example_weights]
        no_additional_factors weighted_base_def log_sample_size_five round_dec_def)
  show ?thesis
    using example_weights fall v0 v1 by simp
qed

section \<open>The clamp of the confidence and the reliability class\<close>

lemma determineReliability_classes:
  "(determineReliability confidence consistency = High)
     = (confidence \<ge> Num 0.8 \<and> consistency \<ge> Num 0.8)"
  "(determineReliability confidence consistency = Medium)
     = (\<not> (confidence \<ge> Num 0.8 \<and> consistency \<ge> Num 0.8)
        \<and> confidence \<ge> Num 0.6 \<and> consistency \<ge> Num 0.6)"
  "(determineReliability confidence consistency = Low)
     = (\<not> (confidence \<ge> Num 0.6 \<and> consistency \<ge> Num 0.6))"
proof -
  have weaker: "Num 0.6 \<le> x" if "Num 0.8 \<le> x" for x
    using that by (cases x) auto
  show "(determineReliability confidence consistency = High)
     = (confidence \<ge> Num 0.8 \<and> consistency \<ge> Num 0.8)"
    by (simp add: determineReliability_def)
  show "(determineReliability confidence consistency = Medium)
     = (\<not> (confidence \<ge> Num 0.8 \<and> consistency \<ge> Num 0.8)
        \<and> confidence \<ge> Num 0.6 \<and> consistency \<ge> Num 0.6)"
    by (simp add: determineReliability_def)
  show "(determineReliability confidence consistency = Low)
     = (\<not> (confidence \<ge> Num 0.6 \<and> consistency \<ge> Num 0.6))"
    using weaker[of confidence] weaker[of consistency]
    by (auto simp: determineReliability_def)
qed

lemma finalConfidence_unit:
  assumes "factors config = finite_weights wc wo ws" and "calculateAdditionalFactors af \<noteq> NaN"
  shows "\<exists>f. finalConfidence config (Num c) (Num oc) (Num t) af = Num f \<and> 0 \<le> f \<and> f \<le> 1"
  using assms(2)
  by (cases "calculateAdditionalFactors af") (simp_all add: finalConfidence_cases[OF assms(1)])

text \<open>
  Claim C6, as stated, fails for the confidence calculator: with the weights 0.5, 0.3 and
  0.2, consistency 0.8392, two outliers among five results and no optional factors, the
  clamped sum is 0.7996; the report carries the confidence 0.8 and a consistency of at
  least 0.8, yet its reliability is \<open>medium\<close>.
\<close>

theorem rounded_confidence_counterexample:
  "confidence_returned (calculateConfidence example_confidence (Num 0.8392) (Num 2) (Num 5) None)
     = Num 0.8
   \<and> reliability_returned (calculateConfidence example_confidence (Num 0.8392) (Num 2) (Num 5) None)
     = Medium
   \<and> \<not> ((reliability_returned
             (calculateConfidence example_confidence (Num 0.8392) (Num 2) (Num 5) None) = High)
          = (confidence_returned
               (calculateConfidence example_confidence (Num 0.8392) (Num 2) (Num 5) None) \<ge> Num 0.8
             \<and> Num 0.8392 \<ge> Num 0.8))"
proof -
  have c: "confidence_returned
      (calculateConfidence example_confidence (Num 0.8392) (Num 2) (Num 5) None) = Num 0.8"
    by (simp add: calculateConfidence_def Let_def finalConfidence_cases[OF example_weights]
        no_additional_factors weighted_base_def log_sample_size_five round_dec_def)
  have r: "reliability_returned
      (calculateConfidence example_confidence (Num 0.8392) (Num 2) (Num 5) None) = Medium"
    by (simp add: calculateConfidence_def Let_def finalConfidence_cases[OF example_weights]
        no_additional_factors weighted_base_def log_sample_size_five determineReliability_def)
  show ?thesis unfolding c r by simp
qed

text \<open>
  Claim C6, amended. For finite inputs and weights, and optional factors that yield a number,
  the confidence the calculator returns lies between 0 and 1: it is the clamped sum, itself
  between 0 and 1, rounded to three decimals. The reliability class is taken from the clamped
  sum before it is rounded: \<open>high\<close> exactly when that sum and the consistency are both at
  least 0.8, \<open>medium\<close> exactly when that fails and both are at least 0.6, and \<open>low\<close>
  otherwise. The orchestrator does not round: on a positive number of results its confidence
  lies between 0 and 1. In every result of \<open>consolidateResults\<close>, and so of \<open>evaluateChat\<close>,
  the confidence is the one \<open>calculateConfidence\<close> of the orchestrator computes from the
  reported consistency, the number of reported outliers and the number of successful results;
  it lies between 0 and 1 when the consistency is finite; and the reliability is \<open>high\<close>
  exactly when the reported confidence and consistency are both at least 0.8, \<open>medium\<close>
  exactly when that fails and both are at least 0.6, and \<open>low\<close> otherwise.
\<close>

theorem reliability_classifies_clamped_confidence:
  assumes "factors config = finite_weights wc wo ws" and "calculateAdditionalFactors af \<noteq> NaN"
  shows "(\<exists>f. finalConfidence config (Num c) (Num oc) (Num t) af = Num f \<and> 0 \<le> f \<and> f \<le> 1
              \<and> confidence_returned (calculateConfidence config (Num c) (Num oc) (Num t) af)
                   = Num (round_dec 3 f)
              \<and> 0 \<le> round_dec 3 f \<and> round_dec 3 f \<le> 1)
         \<and> (reliability_returned (calculateConfidence config (Num c) (Num oc) (Num t) af) = High)
             = (finalConfidence config (Num c) (Num oc) (Num t) af \<ge> Num 0.8 \<and> Num c \<ge> Num 0.8)
         \<and> (reliability_returned (calculateConfidence config (Num c) (Num oc) (Num t) af) = Medium)
             = (\<not> (finalConfidence config (Num c) (Num oc) (Num t) af \<ge> Num 0.8 \<and> Num c \<ge> Num 0.8)
                \<and> finalConfidence config (Num c) (Num oc) (Num t) af \<ge> Num 0.6 \<and> Num c \<ge> Num 0.6)
         \<and> (reliability_returned (calculateConfidence config (Num c) (Num oc) (Num t) af) = Low)
             = (\<not> (finalConfidence config (Num c) (Num oc) (Num t) af \<ge> Num 0.6 \<and> Num c \<ge> Num 0.6))
         \<and> (0 < t \<and> factors (confidence_thresholds thresholds) = factors config \<longrightarrow>
              (\<exists>x. orchestrator_calculateConfidence thresholds (Num c) (Num oc) (Num t) = Num x
                    \<and> 0 \<le> x \<and> x \<le> 1))
         \<and> (\<forall>r. consolidateResults thresholds request providerResults = Inr r \<longrightarrow>
                (let confidence = validation_confidence (validation r);
                     consistency = validation_consistency (validation r)
                 in confidence
                      = orchestrator_calculateConfidence thresholds consistency
                          (Num (real (length (validation_outliers (validation r)))))
                          (Num (real (length (filter success providerResults))))
                    \<and> (validation_reliability (validation r) = High)
                        = (confidence \<ge> Num 0.8 \<and> consistency \<ge> Num 0.8)
                    \<and> (validation_reliability (validation r) = Medium)
                        = (\<not> (confidence \<ge> Num 0.8 \<and> consistency \<ge> Num 0.8)
                           \<and> confidence \<ge> Num 0.6 \<and> consistency \<ge> Num 0.6)
                    \<and> (validation_reliability (validation r) = Low)
                        = (\<not> (confidence \<ge> Num 0.6 \<and> consistency \<ge> Num 0.6))
                    \<and> (\<forall>y. consistency = Num y
                            \<and> factors (confidence_thresholds thresholds) = factors config \<longrightarrow>
                          (\<exists>x. confidence = Num x \<and> 0 \<le> x \<and> x \<le> 1))))
         \<and> (\<forall>r. evaluateChat thresholds request providers = Inr r \<longrightarrow>
                consolidateResults thresholds request (map evaluate_provider providers) = Inr r)"
proof -
  obtain f where f: "finalConfidence config (Num c) (Num oc) (Num t) af = Num f" "0 \<le> f" "f \<le> 1"
    using finalConfidence_unit[OF assms] by blast
  have ret: "confidence_returned (calculateConfidence config (Num c) (Num oc) (Num t) af)
               = Num (round_dec 3 f)"
    by (simp add: calculateConfidence_def Let_def f(1))
  have rel: "reliability_returned (calculateConfidence config (Num c) (Num oc) (Num t) af)
               = determineReliability (finalConfidence config (Num c) (Num oc) (Num t) af) (Num c)"
    by (simp add: calculateConfidence_def Let_def)
  have orch: "\<exists>x. orchestrator_calculateConfidence thresholds (Num c) (Num oc) (Num t) = Num x
                    \<and> 0 \<le> x \<and> x \<le> 1"
    if "0 < t \<and> factors (confidence_thresholds thresholds) = factors config"
    using that assms(1) by (simp add: orchestrator_confidence_Num)
  have calc: "(\<exists>f. finalConfidence config (Num c) (Num oc) (Num t) af = Num f \<and> 0 \<le> f \<and> f \<le> 1
              \<and> confidence_returned (calculateConfidence config (Num c) (Num oc) (Num t) af)
                   = Num (round_dec 3 f)
              \<and> 0 \<le> round_dec 3 f \<and> round_dec 3 f \<le> 1)
         \<and> (reliability_returned (calculateConfidence config (Num c) (Num oc) (Num t) af) = High)
             = (finalConfidence config (Num c) (Num oc) (Num t) af \<ge> Num 0.8 \<and> Num c \<ge> Num 0.8)
         \<and> (reliability_returned (calculateConfidence config (Num c) (Num oc) (Num t) af) = Medium)
             = (\<not> (finalConfidence config (Num c) (Num oc) (Num t) af \<ge> Num 0.8 \<and> Num c \<ge> Num 0.8)
                \<and> finalConfidence config (Num c) (Num oc) (Num t) af \<ge> Num 0.6 \<and> Num c \<ge> Num 0.6)
         \<and> (reliability_returned (calculateConfidence config (Num c) (Num oc) (Num t) af) = Low)
             = (\<not> (finalConfidence config (Num c) (Num oc) (Num t) af \<ge> Num 0.6 \<and> Num c \<ge> Num 0.6))
         \<and> (0 < t \<and> factors (confidence_thresholds thresholds) = factors config \<longrightarrow>
              (\<exists>x. orchestrator_calculateConfidence thresholds (Num c) (Num oc) (Num t) = Num x
                    \<and> 0 \<le> x \<and> x \<le> 1))"
    unfolding rel determineReliability_classes
    using f ret round_dec_unit[OF f(2,3), of 3] orch by auto
  have pipeline: "let confidence = validation_confidence (validation r);
                     consistency = validation_consistency (validation r)
                 in confidence
                      = orchestrator_calculateConfidence thresholds consistency
                          (Num (real (length (validation_outliers (validation r)))))
                          (Num (real (length (filter success providerResults))))
                    \<and> (validation_reliability (validation r) = High)
                        = (confidence \<ge> Num 0.8 \<and> consistency \<ge> Num 0.8)
                    \<and> (validation_reliability (validation r) = Medium)
                        = (\<not> (confidence \<ge> Num 0.8 \<and> consistency \<ge> Num 0.8)
                           \<and> confidence \<ge> Num 0.6 \<and> consistency \<ge> Num 0.6)
                    \<and> (validation_reliability (validation r) = Low)
                        = (\<not> (confidence \<ge> Num 0.6 \<and> consistency \<ge> Num 0.6))
                    \<and> (\<forall>y. consistency = Num y
                            \<and> factors (confidence_thresholds thresholds) = factors config \<longrightarrow>
                          (\<exists>x. confidence = Num x \<and> 0 \<le> x \<and> x \<le> 1))"
    if r: "consolidateResults thresholds request providerResults = Inr r" for r
  proof -
    note v = consolidateResults_validation[OF r]
    have n: "0 < real (length (filter success providerResults))" using v(1) by simp
    have range: "\<exists>x. validation_confidence (validation r) = Num x \<and> 0 \<le> x \<and> x \<le> 1"
      if "validation_consistency (validation r) = Num y
          \<and> factors (confidence_thresholds thresholds) = factors config" for y
    proof -
      have w: "factors (confidence_thresholds thresholds) = finite_weights wc wo ws"
        using that assms(1) by simp
      show ?thesis
        using v(4) that orchestrator_confidence_Num[OF w n, of y]
        by simp
    qed
    show ?thesis
      unfolding Let_def
      using v(4) range determineReliability_classes[of "validation_confidence (validation r)"
          "validation_consistency (validation r)", folded v(5)]
      by blast
  qed
  have chat: "consolidateResults thresholds request (map evaluate_provider providers) = Inr r"
    if "evaluateChat thresholds request providers = Inr r" for r
    using that by (rule evaluateChat_consolidates)
  show ?thesis using calc pipeline chat by blast
qed

theorem reliability_classifies_clamped_confidence_witness:
  "factors example_confidence = finite_weights 0.5 0.3 0.2
   \<and> calculateAdditionalFactors None \<noteq> NaN
   \<and> finalConfidence example_confidence (Num 0.8392) (Num 2) (Num 5) None = Num 0.7996
   \<and> \<not> finalConfidence example_confidence (Num 0.8392) (Num 2) (Num 5) None \<ge> Num 0.8
   \<and> reliability_returned (calculateConfidence example_confidence (Num 0.8392) (Num 2) (Num 5) None)
        \<noteq> High
   \<and> (\<exists>r. consolidateResults example_thresholds example_request agreeing_results = Inr r
          \<and> validation_consistency (validation r) = Num 1
          \<and> validation_confidence (validation r) = Num (14 / 15)
          \<and> validation_reliability (validation r) = High)"
proof -
  have a: "calculateAdditionalFactors None \<noteq> NaN" by (simp add: no_additional_factors)
  have v: "finalConfidence example_confidence (Num 0.8392) (Num 2) (Num 5) None = Num 0.7996"
    by (simp add: finalConfidence_cases[OF example_weights] no_additional_factors
        weighted_base_def log_sample_size_five)
  have below: "\<not> finalConfidence example_confidence (Num 0.8392) (Num 2) (Num 5) None \<ge> Num 0.8"
    unfolding v by simp
  note inst = reliability_classifies_clamped_confidence[OF example_weights a,
      where thresholds = example_thresholds and request = example_request
        and providerResults = agreeing_results and c = "0.8392" and oc = 2 and t = 5]
  have "(reliability_returned (calculateConfidence example_confidence (Num 0.8392) (Num 2) (Num 5) None) = High)
        = (finalConfidence example_confidence (Num 0.8392) (Num 2) (Num 5) None \<ge> Num 0.8
           \<and> Num 0.8392 \<ge> Num 0.8)"
    using inst by blast
  then have calc: "reliability_returned
        (calculateConfidence example_confidence (Num 0.8392) (Num 2) (Num 5) None) \<noteq> High"
    using below by simp
  have succ: "filter success agreeing_results = agreeing_results"
    by (simp add: agreeing_results_def total_only_def)
  have cons: "orchestrator_validateConsistency agreeing_results = Num 1"
    by (simp add: orchestrator_validateConsistency_def agreeing_results_def total_only_def
        scoreKeys_def add_key_def variance_step_def key_values_def is_number_def isNaN_def
        reduce_sum_def Let_def)
  have outl: "orchestrator_detectOutliers example_thresholds agreeing_results = []"
    by (simp add: orchestrator_detectOutliers_def agreeing_results_def)
  have w: "factors (confidence_thresholds example_thresholds) = finite_weights 0.5 0.3 0.2"
    by (simp add: example_thresholds_def example_weights)
  have two: "(0 :: real) < 2" by simp
  have conf: "orchestrator_calculateConfidence example_thresholds (Num 1) (Num 0) (Num 2)
                = Num (14 / 15)"
    using orchestrator_confidence_Num[OF w two, of 1 0] by simp
  obtain r where r: "consolidateResults example_thresholds example_request agreeing_results = Inr r"
  proof -
    have "filter success agreeing_results \<noteq> []"
      unfolding succ by (simp add: agreeing_results_def)
    then show ?thesis
      using that consolidateResults_of_successes[of agreeing_results example_thresholds
          example_request]
      by blast
  qed
  note f = consolidateResults_validation[OF r]
  have c1: "validation_consistency (validation r) = Num 1"
    using f(2) by (simp add: succ cons)
  have o1: "validation_outliers (validation r) = []"
    using f(3) by (simp add: succ outl)
  have len: "length agreeing_results = 2" by (simp add: agreeing_results_def)
  have c2: "validation_confidence (validation r) = Num (14 / 15)"
    using f(4) by (simp add: c1 o1 succ len conf)
  have "(validation_reliability (validation r) = High)
          = (validation_confidence (validation r) \<ge> Num 0.8
             \<and> validation_consistency (validation r) \<ge> Num 0.8)"
    using inst r unfolding Let_def by blast
  then have high: "validation_reliability (validation r) = High"
    by (simp add: c1 c2)
  show ?thesis using example_weights a v below calc r c1 c2 high by blast
qed

section \<open>Partial and total failure of the providers\<close>

text \<open>
  Claim C7. The dispatch, and with it the evaluation, ends in an error exactly when no
  provider produced a successful result. When at least one provider succeeds, the evaluation
  returns a consolidated result whose list of provider results has one entry per provider, in
  the order of the providers; its scores, validation and evidence are those of the evaluation
  run on the succeeding providers alone; and the entry of every failed provider has
  \<open>success = false\<close>, no scores, and the message of its error.
\<close>

theorem evaluation_fails_only_without_any_success:
  "((\<exists>e. executeParallelEvaluations providers = Inl e) = (\<forall>p\<in>set providers. \<not> succeeds p))
   \<and> ((\<exists>e. evaluateChat thresholds request providers = Inl e)
        = (\<forall>p\<in>set providers. \<not> succeeds p))
   \<and> ((\<exists>p\<in>set providers. succeeds p) \<longrightarrow>
        (\<exists>r r'. evaluateChat thresholds request providers = Inr r
           \<and> evaluateChat thresholds request (filter succeeds providers) = Inr r'
           \<and> provider_results r = map evaluate_provider providers
           \<and> final_scores r = final_scores r'
           \<and> validation r = validation r'
           \<and> evidence r = evidence r'))
   \<and> (\<forall>p\<in>set providers. \<not> succeeds p \<longrightarrow>
        name (evaluate_provider p) = getName p
        \<and> \<not> success (evaluate_provider p)
        \<and> scores (evaluate_provider p) = []
        \<and> error (evaluate_provider p)
             = Some (case outcome p of Rejected_Error message \<Rightarrow> message
                     | _ \<Rightarrow> ''unknown error''))"
proof -
  have none: "(filter succeeds providers = []) = (\<forall>p\<in>set providers. \<not> succeeds p)"
    by (simp add: filter_empty_conv)
  have dispatch: "(\<exists>e. executeParallelEvaluations providers = Inl e)
                    = (\<forall>p\<in>set providers. \<not> succeeds p)"
    unfolding none[symmetric] by (simp add: dispatch_result)
  have whole: "(\<exists>e. evaluateChat thresholds request providers = Inl e)
                 = (\<forall>p\<in>set providers. \<not> succeeds p)"
  proof (cases "filter succeeds providers = []")
    case True
    then show ?thesis unfolding none[symmetric] by (simp add: evaluateChat_result)
  next
    case False
    then have "filter success (map evaluate_provider providers) \<noteq> []"
      by (simp add: successful_results)
    then obtain r where
      "consolidateResults thresholds request (map evaluate_provider providers) = Inr r"
      using consolidateResults_of_successes by blast
    moreover have "providers \<noteq> []" using False by auto
    ultimately show ?thesis
      using False unfolding none[symmetric] by (simp add: evaluateChat_result)
  qed
  have partial: "\<exists>r r'. evaluateChat thresholds request providers = Inr r
           \<and> evaluateChat thresholds request (filter succeeds providers) = Inr r'
           \<and> provider_results r = map evaluate_provider providers
           \<and> final_scores r = final_scores r'
           \<and> validation r = validation r'
           \<and> evidence r = evidence r'"
    if "\<exists>p\<in>set providers. succeeds p"
  proof -
    from that have some: "filter succeeds providers \<noteq> []" by (simp add: filter_empty_conv)
    then have ne: "providers \<noteq> []" by auto
    have all: "filter succeeds (filter succeeds providers) = filter succeeds providers" by simp
    have succ: "filter success (map evaluate_provider providers) \<noteq> []"
      using some by (simp add: successful_results)
    obtain r r' where
        r: "consolidateResults thresholds request (map evaluate_provider providers) = Inr r"
      and r': "consolidateResults thresholds request
                 (filter success (map evaluate_provider providers)) = Inr r'"
      and same: "provider_results r = map evaluate_provider providers"
        "final_scores r' = final_scores r" "validation r' = validation r"
        "evidence r' = evidence r"
      using consolidateResults_of_successes[OF succ, of thresholds request] by blast
    have "evaluateChat thresholds request providers = Inr r"
      using some ne r by (simp add: evaluateChat_result)
    moreover have "evaluateChat thresholds request (filter succeeds providers) = Inr r'"
      using some r' by (simp add: evaluateChat_result all successful_results)
    ultimately show ?thesis using same by auto
  qed
  have failed: "name (evaluate_provider p) = getName p
        \<and> \<not> success (evaluate_provider p)
        \<and> scores (evaluate_provider p) = []
        \<and> error (evaluate_provider p)
             = Some (case outcome p of Rejected_Error message \<Rightarrow> message
                     | _ \<Rightarrow> ''unknown error'')"
    if "\<not> succeeds p" for p
    using that by (rule failed_provider_entry)
  show ?thesis
    using dispatch whole partial failed by blast
qed

theorem evaluation_fails_only_without_any_success_witness:
  "judge ''a'' (Num 4.6) \<in> set partly_failing_providers
   \<and> succeeds (judge ''a'' (Num 4.6))
   \<and> failing_judge ''b'' ''timeout'' \<in> set partly_failing_providers
   \<and> \<not> succeeds (failing_judge ''b'' ''timeout'')
   \<and> (\<exists>r. evaluateChat example_thresholds example_request partly_failing_providers = Inr r
          \<and> map name (provider_results r) = [''a'', ''b'', ''c'']
          \<and> map success (provider_results r) = [True, False, True]
          \<and> map error (provider_results r) = [None, Some ''timeout'', None]
          \<and> chongjeom (final_scores r) = Num 4.5)"
proof -
  have a: "judge ''a'' (Num 4.6) \<in> set partly_failing_providers"
    and b: "failing_judge ''b'' ''timeout'' \<in> set partly_failing_providers"
    by (simp_all add: partly_failing_providers_def)
  have sa: "succeeds (judge ''a'' (Num 4.6))" and sb: "\<not> succeeds (failing_judge ''b'' ''timeout'')"
    by (simp_all add: succeeds_def judge_def failing_judge_def)
  have some: "\<exists>p\<in>set partly_failing_providers. succeeds p" using a sa by blast
  have kept: "filter succeeds partly_failing_providers = [judge ''a'' (Num 4.6), judge ''c'' (Num 4.4)]"
    by (simp add: partly_failing_providers_def succeeds_def judge_def failing_judge_def)
  obtain r r' where
      r: "evaluateChat example_thresholds example_request partly_failing_providers = Inr r"
    and r': "evaluateChat example_thresholds example_request
               (filter succeeds partly_failing_providers) = Inr r'"
    and entries: "provider_results r = map evaluate_provider partly_failing_providers"
    and same: "final_scores r = final_scores r'"
    using evaluation_fails_only_without_any_success
            [of partly_failing_providers example_thresholds example_request] some
    by blast
  have "chongjeom (final_scores r') = Num 4.5"
    using r' unfolding kept
    by (auto simp: evaluateChat_def executeParallelEvaluations_def judge_def
        evaluate_provider_def extractScores_def score_entry_def truthy_def or_default_def
        consolidateResults_def Let_def consolidateScores_def key_values_def is_number_def
        isNaN_def Array_sort_def by_difference_def consolidateValues_def)
  then have score: "chongjeom (final_scores r) = Num 4.5" using same by simp
  have audit: "map name (provider_results r) = [''a'', ''b'', ''c'']"
      "map success (provider_results r) = [True, False, True]"
      "map error (provider_results r) = [None, Some ''timeout'', None]"
    unfolding entries
    by (simp_all add: partly_failing_providers_def judge_def failing_judge_def
        evaluate_provider_def)
  show ?thesis using a b sa sb r score audit by simp
qed

section \<open>The sample-size component\<close>

text \<open>
  Claim C8, as stated, fails for the orchestrator: with three results the sample-size
  component of its \<open>calculateConfidence\<close> is already 1, while \<open>log(1 + min(1, 3/5)) / log(2)\<close>
  is below 1; with the weights 0.5, 0.3 and 0.2, full consistency and no outlier its
  confidence is 1, where the logarithmic component would leave the sum below 1.
\<close>

theorem orchestrator_sample_size_counterexample:
  "sampleSizeRatio (Num 3) = Num 1
   \<and> ln (1 + min 1 (3 / 5)) / ln 2 < (1 :: real)
   \<and> sampleSizeRatio (Num 3) \<noteq> Num (ln (1 + min 1 (3 / 5)) / ln 2)
   \<and> orchestrator_calculateConfidence example_thresholds (Num 1) (Num 0) (Num 3) = Num 1
   \<and> 1 * 0.5 + max 0 (1 - 0 / 3) * 0.3 + ln (1 + min 1 (3 / 5)) / ln 2 * 0.2 < (1 :: real)"
proof -
  have r: "sampleSizeRatio (Num 3) = Num 1" by (simp add: sampleSizeRatio_def)
  have "ln (8 / 5) < ln (2 :: real)" by (subst ln_less_cancel_iff) simp_all
  then have l: "ln (8 / 5) / ln 2 < (1 :: real)" by simp
  have c: "orchestrator_calculateConfidence example_thresholds (Num 1) (Num 0) (Num 3) = Num 1"
  proof -
    have w: "factors (confidence_thresholds example_thresholds) = finite_weights 0.5 0.3 0.2"
      by (simp add: example_thresholds_def example_weights)
    have p: "(0 :: real) < 3" by simp
    show ?thesis using orchestrator_confidence_Num[OF w p, of 1 0] by simp
  qed
  have m: "min 1 (3 / 5) = (3 / 5 :: real)" "1 + 3 / 5 = (8 / 5 :: real)" by simp_all
  have s: "1 * 0.5 + max 0 (1 - 0 / 3) * 0.3 + ln (8 / 5) / ln 2 * 0.2 < (1 :: real)"
  proof -
    define x :: real where "x = ln (8 / 5) / ln 2"
    have "x < 1" using l by (simp only: x_def)
    then have "1 * 0.5 + max 0 (1 - 0 / 3) * 0.3 + x * 0.2 < (1 :: real)" by simp
    then show ?thesis by (simp only: x_def)
  qed
  have d: "Num 1 \<noteq> Num (ln (8 / 5) / ln 2)" using l by simp
  show ?thesis unfolding m r c using l s d by blast
qed

text \<open>
  Claim C8, amended. For a positive number \<open>n\<close> of results the sample-size component of the
  confidence calculator, before weighting, is \<open>log(1 + min(1, n/5)) / log(2)\<close>; it is at
  most 1, and it is 1 exactly from \<open>n = 5\<close> on, so that further providers add nothing. The
  sample-size component of the orchestrator's \<open>calculateConfidence\<close>, before weighting, is
  the ratio \<open>min(1, n/3)\<close>; it is at most 1, and it is 1 exactly from \<open>n = 3\<close> on. Each is
  multiplied by the configured sample-size weight and added to the other two components.
\<close>

theorem sample_size_components_cap_at_five_and_three:
  assumes "0 < n"
  shows "calculateSampleSizeContribution (Num n) = Num (ln (1 + min 1 (n / 5)) / ln 2)
         \<and> calculateSampleSizeContribution (Num n) \<le> Num 1
         \<and> (calculateSampleSizeContribution (Num n) = Num 1) = (5 \<le> n)
         \<and> sampleSizeComponent config (Num n)
             = calculateSampleSizeContribution (Num n) * sample_size_weight (factors config)
         \<and> sampleSizeRatio (Num n) = Num (min 1 (n / 3))
         \<and> sampleSizeRatio (Num n) \<le> Num 1
         \<and> (sampleSizeRatio (Num n) = Num 1) = (3 \<le> n)
         \<and> orchestrator_calculateConfidence thresholds consistency outlierCount (Num n)
             = Math_min (Num 1) (Math_max (Num 0)
                 (consistency * consistency_weight (factors (confidence_thresholds thresholds))
                  + Math_max (Num 0) (Num 1 - outlierCount / Num n)
                      * outlier_weight (factors (confidence_thresholds thresholds))
                  + sampleSizeRatio (Num n)
                      * sample_size_weight (factors (confidence_thresholds thresholds))))"
proof -
  have v: "calculateSampleSizeContribution (Num n) = Num (ln (1 + min 1 (n / 5)) / ln 2)"
    using assms by (simp add: sample_size_Num log_sample_size_def)
  have pos: "0 < 1 + min 1 (n / 5)" using assms by simp
  have "ln (1 + min 1 (n / 5)) \<le> ln 2"
    using pos by (subst ln_le_cancel_iff) simp_all
  then have le: "ln (1 + min 1 (n / 5)) / ln 2 \<le> 1" by simp
  have "(ln (1 + min 1 (n / 5)) / ln 2 = 1) = (ln (1 + min 1 (n / 5)) = ln 2)" by auto
  also have "\<dots> = (1 + min 1 (n / 5) = 2)"
    using pos by (subst ln_inj_iff) simp_all
  also have "\<dots> = (5 \<le> n)" by auto
  finally have eq: "(ln (1 + min 1 (n / 5)) / ln 2 = 1) = (5 \<le> n)" .
  have calc: "calculateSampleSizeContribution (Num n) \<le> Num 1"
             "(calculateSampleSizeContribution (Num n) = Num 1) = (5 \<le> n)"
    using le eq by (simp_all add: v)
  have w: "sampleSizeComponent config (Num n)
             = calculateSampleSizeContribution (Num n) * sample_size_weight (factors config)"
    by (simp add: sampleSizeComponent_def)
  have r: "sampleSizeRatio (Num n) = Num (min 1 (n / 3))"
    by (simp add: sampleSizeRatio_def)
  have ratio: "sampleSizeRatio (Num n) \<le> Num 1" "(sampleSizeRatio (Num n) = Num 1) = (3 \<le> n)"
    unfolding r by auto
  have o: "orchestrator_calculateConfidence thresholds consistency outlierCount (Num n)
             = Math_min (Num 1) (Math_max (Num 0)
                 (consistency * consistency_weight (factors (confidence_thresholds thresholds))
                  + Math_max (Num 0) (Num 1 - outlierCount / Num n)
                      * outlier_weight (factors (confidence_thresholds thresholds))
                  + sampleSizeRatio (Num n)
                      * sample_size_weight (factors (confidence_thresholds thresholds))))"
    by (simp add: orchestrator_calculateConfidence_def Let_def)
  show ?thesis using v calc w r ratio o by blast
qed

theorem sample_size_components_cap_at_five_and_three_witness:
  "(0 :: real) < 5 \<and> calculateSampleSizeContribution (Num 5) = Num 1
   \<and> sampleSizeRatio (Num 5) = Num 1
   \<and> (0 :: real) < 3 \<and> calculateSampleSizeContribution (Num 3) \<noteq> Num 1
   \<and> sampleSizeRatio (Num 3) = Num 1
   \<and> (0 :: real) < 2 \<and> sampleSizeRatio (Num 2) = Num (2 / 3)"
proof -
  have p5: "(0 :: real) < 5" and p3: "(0 :: real) < 3" and p2: "(0 :: real) < 2" by simp_all
  have "calculateSampleSizeContribution (Num 5) = Num 1 \<and> sampleSizeRatio (Num 5) = Num 1"
    using sample_size_components_cap_at_five_and_three[OF p5] by simp
  moreover have "calculateSampleSizeContribution (Num 3) \<noteq> Num 1 \<and> sampleSizeRatio (Num 3) = Num 1"
    using sample_size_components_cap_at_five_and_three[OF p3] by simp
  moreover have "sampleSizeRatio (Num 2) = Num (2 / 3)"
    using sample_size_components_cap_at_five_and_three[OF p2] by simp
  ultimately show ?thesis by simp
qed

section \<open>Too few successful results for a consistency measurement\<close>

lemma mixed_results_unfolded:
  "mixed_results =
     [\<lparr>name = ''a'', model = ''model'', scores = [(''total_score'', Num 4.6)], responseTime = 0,
       tokens = Num 0, cost = Num 0, success = True, error = None\<rparr>,
      \<lparr>name = ''b'', model = ''model'', scores = [], responseTime = 0,
       tokens = Num 0, cost = Num 0, success = False, error = Some ''timeout''\<rparr>]"
  by (simp add: mixed_results_def judge_def failing_judge_def evaluate_provider_def
      extractScores_def score_entry_def truthy_def or_default_def)

text \<open>
  Claim C9, as stated, fails: for the results of one provider that succeeded and one that
  failed there are fewer than 2 successful results, yet the report has consistency 0, is not
  consistent, and carries the status \<open>INSUFFICIENT_DATA\<close>, not \<open>SINGLE_PROVIDER\<close>.
\<close>

theorem one_success_of_two_counterexample:
  "length (filter success mixed_results) < 2
   \<and> consistency_returned (validateConsistency example_consistency mixed_results) = Num 0
   \<and> consistency_returned (validateConsistency example_consistency mixed_results) \<noteq> Num 1.0
   \<and> \<not> isConsistent (validateConsistency example_consistency mixed_results)
   \<and> status (overall (validateConsistency example_consistency mixed_results)) = INSUFFICIENT_DATA
   \<and> status (overall (validateConsistency example_consistency mixed_results)) \<noteq> SINGLE_PROVIDER"
  by (simp add: mixed_results_unfolded validateConsistency_def getInsufficientDataResult_def Let_def)

text \<open>
  Claim C9, amended. For every list of provider results with fewer than 2 successful results:
  when the list itself has fewer than 2 results, the validator returns the single-provider
  report (consistency 1.0, consistent, status \<open>SINGLE_PROVIDER\<close>, no per-score analysis);
  when the list has 2 or more results, it returns the insufficient-data report (consistency
  0.0, not consistent, status \<open>INSUFFICIENT_DATA\<close>, no per-score analysis).
\<close>

theorem few_successes_give_flagged_report:
  assumes "length (filter success results) < 2"
  shows "if length results < 2
         then validateConsistency config results = getSingleProviderResult config
              \<and> consistency_returned (validateConsistency config results) = Num 1.0
              \<and> isConsistent (validateConsistency config results)
              \<and> status (overall (validateConsistency config results)) = SINGLE_PROVIDER
              \<and> scorewise (validateConsistency config results) = []
         else validateConsistency config results = getInsufficientDataResult config
              \<and> consistency_returned (validateConsistency config results) = Num 0.0
              \<and> \<not> isConsistent (validateConsistency config results)
              \<and> status (overall (validateConsistency config results)) = INSUFFICIENT_DATA
              \<and> scorewise (validateConsistency config results) = []"
  using assms
  by (simp add: validateConsistency_def getSingleProviderResult_def getInsufficientDataResult_def
      Let_def)

theorem few_successes_give_flagged_report_witness:
  "length (filter success single_result) < 2
   \<and> length single_result < 2
   \<and> consistency_returned (validateConsistency example_consistency single_result) = Num 1
   \<and> status (overall (validateConsistency example_consistency single_result)) = SINGLE_PROVIDER
   \<and> length (filter success mixed_results) < 2
   \<and> \<not> length mixed_results < 2
   \<and> consistency_returned (validateConsistency example_consistency mixed_results) = Num 0
   \<and> status (overall (validateConsistency example_consistency mixed_results)) = INSUFFICIENT_DATA"
proof -
  have s1: "length (filter success single_result) < 2" and s2: "length single_result < 2"
    by (simp_all add: single_result_def)
  have m1: "length (filter success mixed_results) < 2" and m2: "\<not> length mixed_results < 2"
    by (simp_all add: mixed_results_unfolded)
  show ?thesis
    using few_successes_give_flagged_report[OF s1, of example_consistency]
      few_successes_give_flagged_report[OF m1, of example_consistency] s1 s2 m1 m2
    by (simp add: getSingleProviderResult_def getInsufficientDataResult_def)
qed

section \<open>The detector classifies by position and leaves its input alone\<close>

text \<open>
  Claim C10. \<open>detectOutliers\<close> does not change the array it is given (nor any other array
  that existed before the call): it sorts a copy. Every position of the input is either one
  of the returned outlier indices, and then its value is the outlier returned at the same
  place of \<open>outliers\<close>, or it is not, and then its value is in \<open>filteredValues\<close>; the indices
  are positions of the original, unsorted input in increasing order, and the two lists
  together hold the values of the input, each as often as the input does.
\<close>

theorem detector_keeps_input_and_partitions:
  assumes "values_ref < length store"
  shows "snd (detectOutliers_store config values_ref store) ! values_ref = store ! values_ref
    \<and> take (length store) (snd (detectOutliers_store config values_ref store)) = store
    \<and> (let r = fst (detectOutliers_store config values_ref store); values = store ! values_ref
       in outliers r = map ((!) values) (outlierIndices r)
          \<and> filteredValues r = nths values {i. i < length values \<and> i \<notin> set (outlierIndices r)}
          \<and> sorted_wrt (<) (outlierIndices r)
          \<and> set (outlierIndices r) \<subseteq> {..<length values}
          \<and> mset (outliers r) + mset (filteredValues r) = mset values
          \<and> length (outliers r) + length (filteredValues r) = length values)"
proof -
  let ?vals = "store ! values_ref"
  let ?r = "detectOutliers config ?vals"
  obtain P where parts: "outliers ?r = filter P ?vals"
      "outlierIndices ?r = filter (\<lambda>i. P (?vals ! i)) [0..<length ?vals]"
      "filteredValues ?r = filter (\<lambda>v. \<not> P v) ?vals"
    using detectOutliers_parts[of config "?vals"] by blast
  note pos = partition_by_position[of P "?vals", folded parts]
  have m: "mset (outliers ?r) + mset (filteredValues ?r) = mset ?vals"
    unfolding parts by simp
  have l: "length (outliers ?r) + length (filteredValues ?r) = length ?vals"
    unfolding parts by (simp add: sum_length_filter_compl)
  show ?thesis
    using detect_store_unchanged[OF assms, of config] pos m l
    by (simp add: detect_store_result[OF assms] Let_def)
qed

lemma ceiling_quarter: "\<lceil>3 / 4 :: real\<rceil> = 1" "\<lceil>9 / 4 :: real\<rceil> = 3"
  by (simp_all add: ceiling_def)

theorem detector_keeps_input_and_partitions_witness:
  "(0::nat) < length [[Num 100, Num 2, Num 1, Num 3]]
   \<and> snd (detectOutliers_store default_detection 0 [[Num 100, Num 2, Num 1, Num 3]]) ! 0
        = [Num 100, Num 2, Num 1, Num 3]
   \<and> outlierIndices (fst (detectOutliers_store default_detection 0 [[Num 100, Num 2, Num 1, Num 3]])) = [0]
   \<and> outliers (fst (detectOutliers_store default_detection 0 [[Num 100, Num 2, Num 1, Num 3]])) = [Num 100]
   \<and> length (filteredValues (fst (detectOutliers_store default_detection 0 [[Num 100, Num 2, Num 1, Num 3]]))) = 3"
proof -
  let ?store = "[[Num 100, Num 2, Num 1, Num 3]]"
  let ?r = "fst (detectOutliers_store default_detection 0 ?store)"
  have ev: "outlierIndices ?r = [0]"
    by (simp add: detectOutliers_store_def default_detection_def detect_sorted_def Array_sort_def
        by_difference_def calculateQuartile_def js_index_def ceiling_quarter enumerate_eq_zip
        classify_step_def Let_def)
  have valid: "(0::nat) < length ?store" by simp
  note inst = detector_keeps_input_and_partitions[OF valid, of default_detection, unfolded Let_def]
  have kept: "snd (detectOutliers_store default_detection 0 ?store) ! 0 = [Num 100, Num 2, Num 1, Num 3]"
    using inst by simp
  have "outliers ?r = map ((!) (?store ! 0)) (outlierIndices ?r)"
    using inst by blast
  then have outs: "outliers ?r = [Num 100]"
    using ev by simp
  have "length (outliers ?r) + length (filteredValues ?r) = length (?store ! 0)"
    using inst by blast
  then have filt: "length (filteredValues ?r) = 3"
    using outs by simp
  show ?thesis using valid kept ev outs filt by simp
qed

end
